theory Spec2Isabelle
  imports Main
begin

section \<open>The token table of the FHIR search engine\<close>

text \<open>
  A shallow embedding of the server's token lookup table (class \<open>TokenTable\<close> and the
  module-level functions beside it): the extraction of tokens from a resource, the rows
  written by \<open>indexResource\<close>, and the SQL expression compiled by \<open>buildWhere\<close>.
  The result array that the extraction functions push to is passed in and returned.
  The logger call of \<open>logExpensiveQuery\<close> changes no result and is left out.
\<close>

subsection \<open>JavaScript strings\<close>

text \<open>
  Strings are character lists. \<open>toLowerCase\<close> and \<open>toLocaleLowerCase\<close> map the letters
  \<open>A\<close> to \<open>Z\<close> to lower case and \<open>trim\<close> strips the white space characters of the ASCII
  range (space, tab, line feed, vertical tab, form feed, carriage return) from both ends:
  the embedding covers ASCII text.
\<close>

definition toLowerCaseChar :: "char \<Rightarrow> char" where
  "toLowerCaseChar c =
     (case map_of (zip ''ABCDEFGHIJKLMNOPQRSTUVWXYZ'' ''abcdefghijklmnopqrstuvwxyz'') c of
        Some l \<Rightarrow> l
      | None \<Rightarrow> c)"

definition toLowerCase :: "string \<Rightarrow> string" where
  "toLowerCase s = map toLowerCaseChar s"

definition toLocaleLowerCase :: "string \<Rightarrow> string" where
  "toLocaleLowerCase s = map toLowerCaseChar s"

definition isWhiteSpace :: "char \<Rightarrow> bool" where
  "isWhiteSpace c = (c \<in> set [CHR '' '', CHR 0x09, CHR 0x0A, CHR 0x0B, CHR 0x0C, CHR 0x0D])"

definition trim :: "string \<Rightarrow> string" where
  "trim s = rev (dropWhile isWhiteSpace (rev (dropWhile isWhiteSpace s)))"

text \<open>The truth value JavaScript gives a \<open>string | undefined\<close>: defined and not empty.\<close>

fun truthy :: "string option \<Rightarrow> bool" where
  "truthy None = False"
| "truthy (Some s) = (s \<noteq> [])"

text \<open>\<open>s.endsWith(t)\<close>.\<close>

definition endsWith :: "string \<Rightarrow> string \<Rightarrow> bool" where
  "endsWith s t = (length t \<le> length s \<and> drop (length s - length t) s = t)"

subsection \<open>Resources, search parameters and tokens\<close>

text \<open>The fields of the FHIR data types that the token table reads; every field is optional.\<close>

record Identifier =
  id_system :: "string option"
  id_value :: "string option"

record Coding =
  cd_system :: "string option"
  cd_code :: "string option"
  cd_display :: "string option"

record CodeableConcept =
  cc_coding :: "Coding list option"
  cc_text :: "string option"

record ContactPoint =
  cp_system :: "string option"
  cp_value :: "string option"

text \<open>
  A \<open>TypedValue\<close> is a type tag and a value; \<open>buildTokens\<close> switches on the tag and casts
  the value. The tagged union has one constructor for each tag the switch names, and
  \<open>OtherValue\<close> for every other type, carrying the type name and \<open>value?.toString()\<close>.
\<close>

datatype TypedValue =
    IdentifierValue Identifier
  | CodeableConceptValue CodeableConcept
  | CodingValue Coding
  | ContactPointValue ContactPoint
  | OtherValue string "string option"

text \<open>
  Modelled from the spec: the Path Expression Evaluator \<open>evalFhirPathTyped\<close> and the
  resource document are not part of the sources. A resource is its type, its id and, for
  every path expression, the typed values the evaluator yields on it (section 6:
  \<open>evaluate(expression, resource) -> list(TypedValue)\<close>).
\<close>

record Resource =
  res_resourceType :: string
  res_id :: string
  res_paths :: "string \<Rightarrow> TypedValue list"

definition evalFhirPathTyped :: "string \<Rightarrow> Resource \<Rightarrow> TypedValue list" where
  "evalFhirPathTyped expression resource = res_paths resource expression"

record SearchParameter =
  sp_code :: string
  sp_type :: string
  sp_expression :: string

text \<open>
  Modelled from the spec: the Search Parameter Registry (section 6) is not part of the
  sources and is a parameter of every function that consults it.
  \<open>getSearchParameters\<close> gives the search parameters of a resource type in the order of
  \<open>Object.values\<close>, or nothing; \<open>elementDefinitionTypes\<close> gives, for each element
  definition of \<open>getSearchParameterDetails(resourceType, searchParam)\<close>, the codes of its
  types (the empty list when there are no element definitions);
  \<open>deriveIdentifierSearchParameter\<close> synthesizes the identifier variant of a reference
  parameter.
\<close>

record Registry =
  getSearchParameters :: "string \<Rightarrow> SearchParameter list option"
  elementDefinitionTypes :: "string \<Rightarrow> SearchParameter \<Rightarrow> string list list"
  deriveIdentifierSearchParameter :: "SearchParameter \<Rightarrow> SearchParameter"

record Token =
  tk_code :: string
  tk_system :: "string option"
  tk_value :: "string option"

datatype TokenIndexType = CASE_SENSITIVE | CASE_INSENSITIVE

subsection \<open>Classification\<close>

definition getTokenIndexType :: "Registry \<Rightarrow> SearchParameter \<Rightarrow> string \<Rightarrow> TokenIndexType option" where
  "getTokenIndexType R searchParam resourceType =
     (if sp_type searchParam \<noteq> ''token'' then None
      else if endsWith (sp_code searchParam) '':identifier'' then Some CASE_SENSITIVE
      else
        (let elementDefinitions = elementDefinitionTypes R resourceType searchParam in
         if elementDefinitions = [] then None
         else if list_ex (\<lambda>types. list_ex (\<lambda>code. code = ''ContactPoint'') types) elementDefinitions
           then Some CASE_INSENSITIVE
         else if list_ex (\<lambda>types. list_ex (\<lambda>code.
                   code = ''Identifier'' \<or> code = ''CodeableConcept'' \<or> code = ''Coding'') types)
                 elementDefinitions
           then Some CASE_SENSITIVE
         else None))"

definition isCaseSensitiveSearchParameter :: "Registry \<Rightarrow> SearchParameter \<Rightarrow> string \<Rightarrow> bool" where
  "isCaseSensitiveSearchParameter R param resourceType =
     (getTokenIndexType R param resourceType = Some CASE_SENSITIVE)"

definition isIndexed :: "Registry \<Rightarrow> SearchParameter \<Rightarrow> string \<Rightarrow> bool" where
  "isIndexed R searchParam resourceType = (getTokenIndexType R searchParam resourceType \<noteq> None)"

subsection \<open>Extraction\<close>

definition buildSimpleToken ::
  "Token list \<Rightarrow> SearchParameter \<Rightarrow> bool \<Rightarrow> string option \<Rightarrow> string option \<Rightarrow> Token list" where
  "buildSimpleToken result searchParam caseSensitive system val =
     (if (truthy system \<or> truthy val) \<and>
         \<not> list_ex (\<lambda>token. tk_code token = sp_code searchParam \<and>
                            tk_system token = system \<and> tk_value token = val) result
      then result @
        [\<lparr>tk_code = sp_code searchParam,
          tk_system = system,
          tk_value = (if truthy val \<and> \<not> caseSensitive then map_option toLocaleLowerCase val else val)\<rparr>]
      else result)"

definition buildIdentifierToken ::
  "Token list \<Rightarrow> SearchParameter \<Rightarrow> bool \<Rightarrow> Identifier option \<Rightarrow> Token list" where
  "buildIdentifierToken result searchParam caseSensitive identifier =
     buildSimpleToken result searchParam caseSensitive
       (case identifier of None \<Rightarrow> None | Some i \<Rightarrow> id_system i)
       (case identifier of None \<Rightarrow> None | Some i \<Rightarrow> id_value i)"

definition buildCodingToken ::
  "Token list \<Rightarrow> SearchParameter \<Rightarrow> bool \<Rightarrow> Coding option \<Rightarrow> Token list" where
  "buildCodingToken result searchParam caseSensitive coding =
     (case coding of
        None \<Rightarrow> result
      | Some c \<Rightarrow>
          buildSimpleToken
            (if truthy (cd_display c)
             then buildSimpleToken result searchParam caseSensitive (Some ''text'') (cd_display c)
             else result)
            searchParam caseSensitive (cd_system c) (cd_code c))"

definition buildCodeableConceptToken ::
  "Token list \<Rightarrow> SearchParameter \<Rightarrow> bool \<Rightarrow> CodeableConcept option \<Rightarrow> Token list" where
  "buildCodeableConceptToken result searchParam caseSensitive codeableConcept =
     (case codeableConcept of
        None \<Rightarrow> result
      | Some cc \<Rightarrow>
          foldl (\<lambda>r coding. buildCodingToken r searchParam caseSensitive (Some coding))
            (if truthy (cc_text cc)
             then buildSimpleToken result searchParam caseSensitive (Some ''text'') (cc_text cc)
             else result)
            (case cc_coding cc of None \<Rightarrow> [] | Some codings \<Rightarrow> codings))"

definition buildContactPointToken ::
  "Token list \<Rightarrow> SearchParameter \<Rightarrow> bool \<Rightarrow> ContactPoint option \<Rightarrow> Token list" where
  "buildContactPointToken result searchParam caseSensitive contactPoint =
     buildSimpleToken result searchParam caseSensitive
       (case contactPoint of None \<Rightarrow> None | Some cp \<Rightarrow> cp_system cp)
       (case contactPoint of
          None \<Rightarrow> None
        | Some cp \<Rightarrow>
            if truthy (cp_value cp) then map_option toLocaleLowerCase (cp_value cp) else cp_value cp)"

definition buildTokens ::
  "Registry \<Rightarrow> Token list \<Rightarrow> SearchParameter \<Rightarrow> Resource \<Rightarrow> TypedValue \<Rightarrow> Token list" where
  "buildTokens R result searchParam resource typedValue =
     (let caseSensitive = isCaseSensitiveSearchParameter R searchParam (res_resourceType resource) in
      case typedValue of
        IdentifierValue v \<Rightarrow> buildIdentifierToken result searchParam caseSensitive (Some v)
      | CodeableConceptValue v \<Rightarrow> buildCodeableConceptToken result searchParam caseSensitive (Some v)
      | CodingValue v \<Rightarrow> buildCodingToken result searchParam caseSensitive (Some v)
      | ContactPointValue v \<Rightarrow> buildContactPointToken result searchParam caseSensitive (Some v)
      | OtherValue ty v \<Rightarrow> buildSimpleToken result searchParam caseSensitive None v)"

definition buildTokensForSearchParameter ::
  "Registry \<Rightarrow> Token list \<Rightarrow> Resource \<Rightarrow> SearchParameter \<Rightarrow> Token list" where
  "buildTokensForSearchParameter R result resource searchParam =
     foldl (\<lambda>r typedValue. buildTokens R r searchParam resource typedValue) result
       (evalFhirPathTyped (sp_expression searchParam) resource)"

definition getTokens :: "Registry \<Rightarrow> Resource \<Rightarrow> Token list" where
  "getTokens R resource =
     (case getSearchParameters R (res_resourceType resource) of
        None \<Rightarrow> []
      | Some searchParams \<Rightarrow>
          foldl (\<lambda>result searchParam.
              (let r1 = (if getTokenIndexType R searchParam (res_resourceType resource) \<noteq> None
                         then buildTokensForSearchParameter R result resource searchParam
                         else result)
               in if sp_type searchParam = ''reference''
                  then buildTokensForSearchParameter R r1 resource
                         (deriveIdentifierSearchParameter R searchParam)
                  else r1))
            [] searchParams)"

subsection \<open>The token store\<close>

record Row =
  row_resourceId :: string
  row_code :: string
  row_system :: "string option"
  row_value :: "string option"

text \<open>The database: the rows of every table, by table name, in insertion order.\<close>

type_synonym Database = "string \<Rightarrow> Row list"

definition getTableName :: "string \<Rightarrow> string" where
  "getTableName resourceType = resourceType @ ''_Token''"

text \<open>
  Modelled from the spec: \<open>deleteValuesForResource\<close> belongs to the base class
  \<open>LookupTable\<close>, which is not part of the sources. Section 4.2: delete every existing row
  for the resource id in this resource type's token table. A failure of the database
  client itself is outside the embedding.
\<close>

definition deleteValuesForResource :: "Database \<Rightarrow> Resource \<Rightarrow> Database" where
  "deleteValuesForResource db resource =
     db(getTableName (res_resourceType resource) :=
          filter (\<lambda>row. row_resourceId row \<noteq> res_id resource)
            (db (getTableName (res_resourceType resource))))"

text \<open>
  Modelled from the spec: \<open>insertValuesForResource\<close> belongs to \<open>LookupTable\<close> as well.
  Section 4.2: bulk-insert the resulting rows.
\<close>

definition insertValuesForResource :: "Database \<Rightarrow> string \<Rightarrow> Row list \<Rightarrow> Database" where
  "insertValuesForResource db resourceType vals =
     db(getTableName resourceType := db (getTableName resourceType) @ vals)"

text \<open>\<open>s?.trim?.() || undefined\<close>.\<close>

definition trimOrUndefined :: "string option \<Rightarrow> string option" where
  "trimOrUndefined s =
     (case s of None \<Rightarrow> None | Some x \<Rightarrow> if trim x = [] then None else Some (trim x))"

definition tokenRow :: "string \<Rightarrow> Token \<Rightarrow> Row" where
  "tokenRow resourceId token =
     \<lparr>row_resourceId = resourceId,
      row_code = tk_code token,
      row_system = trimOrUndefined (tk_system token),
      row_value = trimOrUndefined (tk_value token)\<rparr>"

definition indexResource :: "Registry \<Rightarrow> Database \<Rightarrow> Resource \<Rightarrow> bool \<Rightarrow> Database" where
  "indexResource R db resource create =
     (let db1 = (if \<not> create then deleteValuesForResource db resource else db);
          tokens = getTokens R resource;
          vals = map (tokenRow (res_id resource)) tokens
      in insertValuesForResource db1 (res_resourceType resource) vals)"

subsection \<open>Filters and the expression tree\<close>

text \<open>
  Modelled from the spec: the enumeration of search operators is declared outside the
  sources. It has the operators the token table names or the spec lists (section 3), and
  \<open>OtherOperator\<close> for every other member, which the code treats alike.
\<close>

datatype FhirOperator =
    EQUALS | NOT_EQUALS | CONTAINS | TEXT | NOT | IN | NOT_IN | MISSING | PRESENT | IDENTIFIER
  | OtherOperator string

record Filter =
  f_code :: string
  f_operator :: FhirOperator
  f_value :: string

record FilterContext =
  fc_searchParam :: SearchParameter
  fc_lookupTableName :: string
  fc_caseSensitive :: bool
  fc_filter :: Filter

text \<open>
  Modelled from the spec: the expression classes of the SQL module are not part of the
  sources. Section 4.5 gives the node kinds; the constructors take the arguments the token
  table passes them. A condition is a column, an operator, a parameter and an optional
  parameter type; a select query is a table, its columns, the expressions of its WHERE
  conjunction and its limit.
\<close>

datatype Column = Column string string

datatype Expression =
    Condition Column string Parameter "string option"
  | Conjunction "Expression list"
  | Disjunction "Expression list"
  | Negation Expression
  | SqlFunction string "Expression list"
  | SelectQuery string "string list" "Expression list" "nat option"
and Parameter =
    Null
  | StringParam string
  | ArrayParam "string list"
  | ColumnParam Column
  | QueryParam Expression

datatype OperationOutcomeError = BadRequest string

text \<open>The message of the error that \<open>shouldTokenRowExist\<close> throws.\<close>

definition missingValueMessage :: string where
  "missingValueMessage =
     ''Search filter '' @ [CHR 0x27] @ '':missing'' @ [CHR 0x27] @ '' must have a value of '' @
     [CHR 0x27] @ ''true'' @ [CHR 0x27] @ '' or '' @ [CHR 0x27] @ ''false'' @ [CHR 0x27]"

subsection \<open>Splitting a search value\<close>

text \<open>
  Modelled from the spec: \<open>splitSearchOnComma\<close> is imported from the core library, which is
  not part of the sources. Section 4.3: the raw value is split on unescaped commas into
  options. A backslash escapes the character after it; the options are the substrings
  between the unescaped commas. \<open>splitUnescaped\<close> is the scan, with the separator, whether
  the last character was an escaping backslash, and the option read so far.
\<close>

fun splitUnescaped :: "char \<Rightarrow> bool \<Rightarrow> string \<Rightarrow> string \<Rightarrow> string list" where
  "splitUnescaped sep escaped current [] = [current]"
| "splitUnescaped sep escaped current (c # cs) =
     (if escaped then splitUnescaped sep False (current @ [c]) cs
      else if c = CHR 0x5C then splitUnescaped sep True (current @ [c]) cs
      else if c = sep then current # splitUnescaped sep False [] cs
      else splitUnescaped sep False (current @ [c]) cs)"

definition splitSearchOnComma :: "string \<Rightarrow> string list" where
  "splitSearchOnComma input = splitUnescaped (CHR '','') False [] input"

text \<open>
  Modelled from the spec: \<open>splitN\<close> is imported from the core library, which is not part of
  the sources. Section 4.3: an option is split on the first unescaped \<open>|\<close> into a system
  part and a value part; \<open>splitN str delim n\<close> yields at most \<open>n\<close> parts.
  \<open>splitFirstUnescaped\<close> finds the first unescaped separator.
\<close>

fun splitFirstUnescaped :: "char \<Rightarrow> bool \<Rightarrow> string \<Rightarrow> string \<Rightarrow> (string \<times> string) option" where
  "splitFirstUnescaped sep escaped current [] = None"
| "splitFirstUnescaped sep escaped current (c # cs) =
     (if escaped then splitFirstUnescaped sep False (current @ [c]) cs
      else if c = CHR 0x5C then splitFirstUnescaped sep True (current @ [c]) cs
      else if c = sep then Some (current, cs)
      else splitFirstUnescaped sep False (current @ [c]) cs)"

fun splitN :: "string \<Rightarrow> char \<Rightarrow> nat \<Rightarrow> string list" where
  "splitN str delim 0 = [str]"
| "splitN str delim (Suc 0) = [str]"
| "splitN str delim (Suc (Suc n)) =
     (case splitFirstUnescaped delim False [] str of
        None \<Rightarrow> [str]
      | Some (part, rest) \<Rightarrow> part # splitN rest delim (Suc n))"

text \<open>
  Modelled from the spec: \<open>escapeLikeString\<close> is imported from the SQL module, which is not
  part of the sources. Section 4.3: the SQL wildcard metacharacters in the option are
  escaped before embedding; a backslash is put before each.
\<close>

definition escapeLikeString :: "string \<Rightarrow> string" where
  "escapeLikeString s =
     concat (map (\<lambda>c. if c \<in> set [CHR 0x5C, CHR ''_'', CHR ''%''] then [CHR 0x5C, c] else [c]) s)"

subsection \<open>Compiling a filter\<close>

fun shouldCompareTokenValue :: "FhirOperator \<Rightarrow> bool" where
  "shouldCompareTokenValue MISSING = False"
| "shouldCompareTokenValue PRESENT = False"
| "shouldCompareTokenValue IN = False"
| "shouldCompareTokenValue NOT_IN = False"
| "shouldCompareTokenValue IDENTIFIER = False"
| "shouldCompareTokenValue operator = True"

definition shouldTokenRowExist :: "Filter \<Rightarrow> OperationOutcomeError + bool" where
  "shouldTokenRowExist flt =
     (if shouldCompareTokenValue (f_operator flt) then
        (if f_operator flt = NOT \<or> f_operator flt = NOT_EQUALS then Inr False else Inr True)
      else if f_operator flt = MISSING then
        (if toLowerCase (f_value flt) = ''true'' then Inr False
         else if toLowerCase (f_value flt) = ''false'' then Inr True
         else Inl (BadRequest missingValueMessage))
      else if f_operator flt = PRESENT then
        (if toLowerCase (f_value flt) = ''true'' then Inr True
         else if toLowerCase (f_value flt) = ''false'' then Inr False
         else Inl (BadRequest missingValueMessage))
      else Inr True)"

definition buildInValueSetCondition :: "string \<Rightarrow> string \<Rightarrow> Expression" where
  "buildInValueSetCondition tableName val =
     Condition (Column tableName ''system'') ''IN_SUBQUERY''
       (QueryParam
          (SelectQuery ''ValueSet'' [''reference'']
             [Condition (Column ''ValueSet'' ''url'') ''='' (StringParam val) None] (Some 1)))
       (Some ''TEXT[]'')"

definition buildValueCondition :: "FilterContext \<Rightarrow> string \<Rightarrow> Expression" where
  "buildValueCondition context val0 =
     (let tableName = fc_lookupTableName context;
          operator = f_operator (fc_filter context);
          column = Column tableName ''value'';
          val = trim val0
      in if operator = TEXT then
           Conjunction
             [Condition (Column tableName ''system'') ''='' (StringParam ''text'') None,
              Condition column ''TSVECTOR_SIMPLE'' (StringParam (val @ '':*'')) None]
         else if operator = CONTAINS then
           Condition column ''LIKE'' (StringParam (escapeLikeString val @ ''%'')) None
         else if fc_caseSensitive context then
           Condition column ''='' (StringParam val) None
         else
           Condition column ''IN'' (ArrayParam [val, toLocaleLowerCase val]) None)"

definition buildWhereCondition :: "FilterContext \<Rightarrow> string \<Rightarrow> Expression option" where
  "buildWhereCondition context query =
     (let operator = f_operator (fc_filter context);
          parts = splitN query (CHR ''|'') 2
      in if length parts = 2 then
           (let system = (if parts ! 0 \<noteq> [] then StringParam (parts ! 0) else Null);
                val = parts ! 1;
                systemCondition =
                  Condition (Column (fc_lookupTableName context) ''system'') ''='' system None
            in Some (if val \<noteq> []
                     then Conjunction [systemCondition, buildValueCondition context val]
                     else systemCondition))
         else if operator = IN then
           Some (buildInValueSetCondition (fc_lookupTableName context) query)
         else if operator = NOT_IN then
           Some (Negation (buildInValueSetCondition (fc_lookupTableName context) query))
         else if shouldCompareTokenValue operator then
           Some (buildValueCondition context query)
         else None)"

definition buildWhereExpression :: "FilterContext \<Rightarrow> Expression option" where
  "buildWhereExpression context =
     (let subExpressions =
            concat (map (\<lambda>option. case buildWhereCondition context option of
                                      None \<Rightarrow> []
                                    | Some expression \<Rightarrow> [expression])
                      (splitSearchOnComma (f_value (fc_filter context))))
      in if subExpressions \<noteq> [] then Some (Disjunction subExpressions) else None)"

text \<open>
  \<open>buildWhere\<close> without its first parameter, the select query, which it does not use. The
  error is the one \<open>shouldTokenRowExist\<close> throws.
\<close>

definition buildWhere ::
  "Registry \<Rightarrow> string \<Rightarrow> string \<Rightarrow> SearchParameter \<Rightarrow> Filter \<Rightarrow> OperationOutcomeError + Expression" where
  "buildWhere R resourceType resourceTableName param flt =
     (let lookupTableName = getTableName resourceType;
          conjunction =
            [Condition (Column resourceTableName ''id'') ''=''
               (ColumnParam (Column lookupTableName ''resourceId'')) None,
             Condition (Column lookupTableName ''code'') ''='' (StringParam (f_code flt)) None];
          caseSensitive = isCaseSensitiveSearchParameter R param resourceType;
          whereExpression =
            buildWhereExpression
              \<lparr>fc_searchParam = param, fc_lookupTableName = lookupTableName,
               fc_caseSensitive = caseSensitive, fc_filter = flt\<rparr>;
          conjunction1 =
            (case whereExpression of None \<Rightarrow> conjunction | Some e \<Rightarrow> conjunction @ [e]);
          exists = SqlFunction ''EXISTS'' [SelectQuery lookupTableName [] [Conjunction conjunction1] None]
      in case shouldTokenRowExist flt of
           Inl err \<Rightarrow> Inl err
         | Inr b \<Rightarrow> if b then Inr exists else Inr (Negation exists))"

subsection \<open>What a compiled expression selects\<close>

text \<open>
  Modelled from the spec: the database that executes the rendered statement is an external
  collaborator (sections 2 and 6; the glossary's existence correlation). An expression is
  evaluated for one resource under SQL's three-valued logic (\<open>None\<close> is NULL): a column is
  bound to a string or to NULL, \<open>=\<close> against the null parameter is the IS NULL test, and
  EXISTS over a select query holds when the WHERE conjunction is true on some row of the
  table. The operators that the database evaluates by means of its own (LIKE, the text
  match, the subquery membership) are a parameter, \<open>DatabaseOperators\<close>.
\<close>

type_synonym Bindings = "Column \<Rightarrow> string option"

type_synonym DatabaseOperators = "string \<Rightarrow> string option \<Rightarrow> Parameter \<Rightarrow> bool option"

text \<open>Modelled from the spec: SQL's AND and OR over a list of truth values.\<close>

definition and3 :: "bool option list \<Rightarrow> bool option" where
  "and3 vs =
     (if list_ex (\<lambda>v. v = Some False) vs then Some False
      else if list_ex (\<lambda>v. v = None) vs then None
      else Some True)"

definition or3 :: "bool option list \<Rightarrow> bool option" where
  "or3 vs =
     (if list_ex (\<lambda>v. v = Some True) vs then Some True
      else if list_ex (\<lambda>v. v = None) vs then None
      else Some False)"

text \<open>
  Modelled from the spec: the bindings inside a select query on the token table. The four
  columns of the table (section 6: resourceId, code, system, value) are bound to the row;
  every other column keeps its outer binding.
\<close>

definition bindRow :: "Bindings \<Rightarrow> string \<Rightarrow> Row \<Rightarrow> Bindings" where
  "bindRow env tableName row =
     (\<lambda>col. case col of Column t n \<Rightarrow>
        if t = tableName \<and> n = ''resourceId'' then Some (row_resourceId row)
        else if t = tableName \<and> n = ''code'' then Some (row_code row)
        else if t = tableName \<and> n = ''system'' then row_system row
        else if t = tableName \<and> n = ''value'' then row_value row
        else env col)"

text \<open>
  Modelled from the spec: a condition. \<open>=\<close> compares a column with a string, with another
  column or with null, and IN tests membership in an array; a comparison with NULL is NULL.
\<close>

definition evalCondition ::
  "DatabaseOperators \<Rightarrow> Bindings \<Rightarrow> Column \<Rightarrow> string \<Rightarrow> Parameter \<Rightarrow> bool option" where
  "evalCondition ops env col operator parameter =
     (if operator = ''='' then
        (case parameter of
           Null \<Rightarrow> Some (env col = None)
         | StringParam s \<Rightarrow> map_option (\<lambda>v. v = s) (env col)
         | ColumnParam col2 \<Rightarrow>
             (case env col of
                None \<Rightarrow> None
              | Some a \<Rightarrow> map_option (\<lambda>b. a = b) (env col2))
         | ArrayParam xs \<Rightarrow> ops operator (env col) parameter
         | QueryParam q \<Rightarrow> ops operator (env col) parameter)
      else if operator = ''IN'' then
        (case parameter of
           ArrayParam xs \<Rightarrow> map_option (\<lambda>v. v \<in> set xs) (env col)
         | Null \<Rightarrow> ops operator (env col) parameter
         | StringParam s \<Rightarrow> ops operator (env col) parameter
         | ColumnParam col2 \<Rightarrow> ops operator (env col) parameter
         | QueryParam q \<Rightarrow> ops operator (env col) parameter)
      else ops operator (env col) parameter)"

text \<open>Modelled from the spec: the node kinds of section 4.5, evaluated recursively.\<close>

fun evalExpression :: "DatabaseOperators \<Rightarrow> Database \<Rightarrow> Bindings \<Rightarrow> Expression \<Rightarrow> bool option" where
  "evalExpression ops db env (Condition col operator parameter ty) =
     evalCondition ops env col operator parameter"
| "evalExpression ops db env (Conjunction es) = and3 (map (evalExpression ops db env) es)"
| "evalExpression ops db env (Disjunction es) = or3 (map (evalExpression ops db env) es)"
| "evalExpression ops db env (Negation e) = map_option Not (evalExpression ops db env e)"
| "evalExpression ops db env (SqlFunction name args) =
     (case args of
        [SelectQuery tableName cols predicate lim] \<Rightarrow>
          if name = ''EXISTS'' then
            Some (list_ex
                    (\<lambda>row. and3 (map (evalExpression ops db (bindRow env tableName row)) predicate)
                            = Some True)
                    (db tableName))
          else None
      | _ \<Rightarrow> None)"
| "evalExpression ops db env (SelectQuery tableName cols predicate lim) = None"

text \<open>
  Modelled from the spec: the caller embeds the expression into the query on the resource
  table. A resource is selected when the expression is true with the column \<open>id\<close> of the
  resource table bound to the resource's id.
\<close>

definition resourceBindings :: "string \<Rightarrow> string \<Rightarrow> Bindings" where
  "resourceBindings resourceTableName resourceId =
     (\<lambda>col. if col = Column resourceTableName ''id'' then Some resourceId else None)"

definition selects ::
  "DatabaseOperators \<Rightarrow> Database \<Rightarrow> string \<Rightarrow> Expression \<Rightarrow> string \<Rightarrow> bool" where
  "selects ops db resourceTableName expression resourceId =
     (evalExpression ops db (resourceBindings resourceTableName resourceId) expression = Some True)"

subsection \<open>Example data\<close>

text \<open>
  A registry with one token parameter of the Patient type, \<open>identifier\<close>, whose element
  type is Identifier; patients that carry identifiers; an Observation parameter \<open>code\<close>;
  and an empty database.
\<close>

definition identifierParam :: SearchParameter where
  "identifierParam =
     \<lparr>sp_code = ''identifier'', sp_type = ''token'', sp_expression = ''Patient.identifier''\<rparr>"

definition codeParam :: SearchParameter where
  "codeParam = \<lparr>sp_code = ''code'', sp_type = ''token'', sp_expression = ''Observation.code''\<rparr>"

definition exampleRegistry :: Registry where
  "exampleRegistry =
     \<lparr>getSearchParameters = (\<lambda>rt. if rt = ''Patient'' then Some [identifierParam] else None),
      elementDefinitionTypes =
        (\<lambda>rt sp. if rt = ''Patient'' \<and> sp_code sp = ''identifier'' then [[''Identifier'']] else []),
      deriveIdentifierSearchParameter =
        (\<lambda>sp. sp\<lparr>sp_code := sp_code sp @ '':identifier'', sp_type := ''token''\<rparr>)\<rparr>"

definition patientWith :: "string \<Rightarrow> Identifier list \<Rightarrow> Resource" where
  "patientWith i ids =
     \<lparr>res_resourceType = ''Patient'', res_id = i,
      res_paths = (\<lambda>e. if e = ''Patient.identifier'' then map IdentifierValue ids else [])\<rparr>"

definition emptyDatabase :: Database where
  "emptyDatabase = (\<lambda>t. [])"

text \<open>The database after two patients have been created, with identifier values 123 and 124.\<close>

definition roundTripDatabase :: Database where
  "roundTripDatabase =
     indexResource exampleRegistry
       (indexResource exampleRegistry emptyDatabase
          (patientWith ''r1'' [\<lparr>id_system = Some ''http://example.org'', id_value = Some ''123''\<rparr>])
          True)
       (patientWith ''r2'' [\<lparr>id_system = Some ''http://example.org'', id_value = Some ''124''\<rparr>])
       True"

text \<open>
  A derived identifier parameter of a reference, a registry that knows no element
  definitions, database operators that decide nothing, and the database after one patient
  \<open>r1\<close> with a single identifier value and no system has been created.
\<close>

definition subjectIdentifierParam :: SearchParameter where
  "subjectIdentifierParam =
     \<lparr>sp_code = ''subject:identifier'', sp_type = ''token'',
      sp_expression = ''(Observation.subject).identifier''\<rparr>"

definition emptyRegistry :: Registry where
  "emptyRegistry =
     \<lparr>getSearchParameters = (\<lambda>rt. None),
      elementDefinitionTypes = (\<lambda>rt sp. []),
      deriveIdentifierSearchParameter = (\<lambda>sp. sp)\<rparr>"

definition noDatabaseOperators :: DatabaseOperators where
  "noDatabaseOperators = (\<lambda>operator v parameter. None)"

definition tokenDatabase :: "string \<Rightarrow> Database" where
  "tokenDatabase v =
     indexResource exampleRegistry emptyDatabase
       (patientWith ''r1'' [\<lparr>id_system = None, id_value = Some v\<rparr>]) True"

section \<open>Properties\<close>

subsection \<open>Unfolding the definitions on concrete data\<close>

lemmas example_defs = identifierParam_def exampleRegistry_def patientWith_def emptyDatabase_def

lemmas extract_defs = getTokens_def getTokenIndexType_def endsWith_def
  buildTokensForSearchParameter_def evalFhirPathTyped_def buildTokens_def
  isCaseSensitiveSearchParameter_def buildIdentifierToken_def buildSimpleToken_def

lemmas store_defs = indexResource_def insertValuesForResource_def deleteValuesForResource_def
  getTableName_def tokenRow_def trimOrUndefined_def trim_def isWhiteSpace_def

lemmas compile_defs = buildWhere_def buildWhereExpression_def buildWhereCondition_def
  buildValueCondition_def splitSearchOnComma_def shouldTokenRowExist_def getTableName_def
  numeral_2_eq_2 Let_def

lemmas eval_defs = selects_def resourceBindings_def bindRow_def evalCondition_def and3_def or3_def

subsection \<open>Search values without separators\<close>

lemma splitUnescaped_no_separator:
  "sep \<notin> set v \<Longrightarrow> splitUnescaped sep escaped current v = [current @ v]"
  by (induction v arbitrary: escaped current) auto

lemma splitFirstUnescaped_no_separator:
  "sep \<notin> set v \<Longrightarrow> splitFirstUnescaped sep escaped current v = None"
  by (induction v arbitrary: escaped current) auto

lemma splitSearchOnComma_plain:
  "CHR '','' \<notin> set v \<Longrightarrow> splitSearchOnComma v = [v]"
  by (simp add: splitSearchOnComma_def splitUnescaped_no_separator)

lemma splitN_plain:
  "CHR ''|'' \<notin> set v \<Longrightarrow> splitN v (CHR ''|'') 2 = [v]"
  by (simp add: numeral_2_eq_2 splitFirstUnescaped_no_separator)

lemma toLowerCase_keeps_character:
  assumes "toLowerCase v = w" and "toLowerCaseChar c = c" and "c \<notin> set w"
  shows "c \<notin> set v"
proof
  assume "c \<in> set v"
  then have "toLowerCaseChar c \<in> set (toLowerCase v)"
    by (simp add: toLowerCase_def)
  with assms show False by simp
qed

lemma boolean_literal_plain:
  assumes "toLowerCase v = ''true'' \<or> toLowerCase v = ''false''"
  shows "CHR '','' \<notin> set v \<and> CHR ''|'' \<notin> set v"
proof -
  have comma: "toLowerCaseChar (CHR '','') = CHR '',''"
    and pipe: "toLowerCaseChar (CHR ''|'') = CHR ''|''"
    by (simp_all add: toLowerCaseChar_def)
  from assms show ?thesis
  proof
    assume t: "toLowerCase v = ''true''"
    show ?thesis
      using toLowerCase_keeps_character [OF t comma] toLowerCase_keeps_character [OF t pipe]
      by simp
  next
    assume f: "toLowerCase v = ''false''"
    show ?thesis
      using toLowerCase_keeps_character [OF f comma] toLowerCase_keeps_character [OF f pipe]
      by simp
  qed
qed

lemma operator_cases:
  "operator \<noteq> MISSING \<Longrightarrow> operator \<noteq> PRESENT \<Longrightarrow> operator \<noteq> IDENTIFIER \<Longrightarrow>
   operator = IN \<or> operator = NOT_IN \<or> shouldCompareTokenValue operator"
  by (cases operator) auto

lemma buildWhereCondition_plain:
  assumes "CHR ''|'' \<notin> set option"
  shows "buildWhereCondition context option =
     (if f_operator (fc_filter context) = IN
        then Some (buildInValueSetCondition (fc_lookupTableName context) option)
      else if f_operator (fc_filter context) = NOT_IN
        then Some (Negation (buildInValueSetCondition (fc_lookupTableName context) option))
      else if shouldCompareTokenValue (f_operator (fc_filter context))
        then Some (buildValueCondition context option)
      else None)"
  using assms by (simp add: buildWhereCondition_def splitN_plain Let_def)

lemma buildWhereExpression_single:
  assumes "shouldCompareTokenValue (f_operator flt)"
    and "CHR '','' \<notin> set (f_value flt)" and "CHR ''|'' \<notin> set (f_value flt)"
  shows "buildWhereExpression
           \<lparr>fc_searchParam = param, fc_lookupTableName = t, fc_caseSensitive = cs, fc_filter = flt\<rparr> =
         Some (Disjunction
           [buildValueCondition
              \<lparr>fc_searchParam = param, fc_lookupTableName = t, fc_caseSensitive = cs, fc_filter = flt\<rparr>
              (f_value flt)])"
  using assms
  by (auto simp: buildWhereExpression_def buildWhereCondition_def splitSearchOnComma_plain splitN_plain Let_def)

subsection \<open>Three-valued logic and the existence test\<close>

lemma and3_True: "and3 vs = Some True \<longleftrightarrow> (\<forall>v \<in> set vs. v = Some True)"
proof
  assume "and3 vs = Some True"
  then have no: "Some False \<notin> set vs" "None \<notin> set vs"
    by (auto simp: and3_def list_ex_iff split: if_splits)
  show "\<forall>v \<in> set vs. v = Some True"
  proof
    fix v assume v: "v \<in> set vs"
    show "v = Some True"
    proof (cases v)
      case None
      with v no show ?thesis by simp
    next
      case (Some b)
      with v no show ?thesis by (cases b) simp_all
    qed
  qed
next
  assume "\<forall>v \<in> set vs. v = Some True"
  then have "Some False \<notin> set vs" "None \<notin> set vs" by auto
  then show "and3 vs = Some True"
    by (simp add: and3_def list_ex_iff)
qed

lemma or3_True: "or3 vs = Some True \<longleftrightarrow> (\<exists>v \<in> set vs. v = Some True)"
  by (auto simp: or3_def list_ex_iff)

text \<open>
  The existence test of \<open>buildWhere\<close>: the correlation picks the rows of the resource with
  the code of the filter, and every further condition must be true on the row.
\<close>

lemma exists_correlation:
  "evalExpression ops db (resourceBindings rtn rid)
     (SqlFunction ''EXISTS''
        [SelectQuery t cols
           [Conjunction
              (Condition (Column rtn ''id'') ''='' (ColumnParam (Column t ''resourceId'')) None #
               Condition (Column t ''code'') ''='' (StringParam code) None # extra)] lim]) =
   Some (\<exists>row \<in> set (db t). row_resourceId row = rid \<and> row_code row = code \<and>
          (\<forall>e \<in> set extra.
             evalExpression ops db (bindRow (resourceBindings rtn rid) t row) e = Some True))"
  by (auto simp: list_ex_iff and3_True evalCondition_def bindRow_def resourceBindings_def)

lemma selects_exists:
  "selects ops db rtn
     (SqlFunction ''EXISTS''
        [SelectQuery t cols
           [Conjunction
              (Condition (Column rtn ''id'') ''='' (ColumnParam (Column t ''resourceId'')) None #
               Condition (Column t ''code'') ''='' (StringParam code) None # extra)] lim]) rid \<longleftrightarrow>
   (\<exists>row \<in> set (db t). row_resourceId row = rid \<and> row_code row = code \<and>
      (\<forall>e \<in> set extra.
         evalExpression ops db (bindRow (resourceBindings rtn rid) t row) e = Some True))"
  by (simp only: selects_def exists_correlation) simp

lemma selects_not_exists:
  "selects ops db rtn
     (Negation (SqlFunction ''EXISTS''
        [SelectQuery t cols
           [Conjunction
              (Condition (Column rtn ''id'') ''='' (ColumnParam (Column t ''resourceId'')) None #
               Condition (Column t ''code'') ''='' (StringParam code) None # extra)] lim])) rid \<longleftrightarrow>
   \<not> (\<exists>row \<in> set (db t). row_resourceId row = rid \<and> row_code row = code \<and>
      (\<forall>e \<in> set extra.
         evalExpression ops db (bindRow (resourceBindings rtn rid) t row) e = Some True))"
  by (simp only: selects_def evalExpression.simps(4) exists_correlation) simp

lemma value_condition_selects:
  assumes "f_operator flt \<noteq> TEXT" and "f_operator flt \<noteq> CONTAINS"
    and "row_value row = Some (trim X)"
  shows "evalExpression ops db (bindRow env t row)
           (buildValueCondition
              \<lparr>fc_searchParam = param, fc_lookupTableName = t, fc_caseSensitive = cs, fc_filter = flt\<rparr> X)
         = Some True"
  using assms
  by (simp add: buildValueCondition_def Let_def evalCondition_def bindRow_def)

lemma roundTripDatabase_rows: "roundTripDatabase ''Patient_Token'' =
   [\<lparr>row_resourceId = ''r1'', row_code = ''identifier'', row_system = Some ''http://example.org'', row_value = Some ''123''\<rparr>,
    \<lparr>row_resourceId = ''r2'', row_code = ''identifier'', row_system = Some ''http://example.org'', row_value = Some ''124''\<rparr>]"
  by (simp add: roundTripDatabase_def example_defs extract_defs store_defs)

lemma tokenDatabase_X:
  "tokenDatabase ''X'' ''Patient_Token'' =
     [\<lparr>row_resourceId = ''r1'', row_code = ''identifier'', row_system = None, row_value = Some ''X''\<rparr>]"
  by (simp add: tokenDatabase_def example_defs extract_defs store_defs)

lemma tokenDatabase_b:
  "tokenDatabase ''b'' ''Patient_Token'' =
     [\<lparr>row_resourceId = ''r1'', row_code = ''identifier'', row_system = None, row_value = Some ''b''\<rparr>]"
  by (simp add: tokenDatabase_def example_defs extract_defs store_defs)

lemma identifierParam_case_sensitive:
  "isCaseSensitiveSearchParameter exampleRegistry identifierParam ''Patient''"
  by (simp add: isCaseSensitiveSearchParameter_def getTokenIndexType_def example_defs endsWith_def)

subsection \<open>Extraction of CodeableConcept and Coding values\<close>

text \<open>
  C1, as the code has it. The text token of a CodeableConcept or of a Coding carries the
  code of the search parameter and the system \<open>text\<close>: for a CodeableConcept whose text is
  present and not empty, extraction queues the token (code of the parameter, system
  \<open>text\<close>, value the text, in lower case when the parameter is not case-sensitive) unless
  the tuple is queued already, and then handles each contained Coding in order; for a
  Coding whose display is present and not empty it queues the token (code of the
  parameter, system \<open>text\<close>, value the display) in the same way and then the token of the
  Coding's system and code.
\<close>

theorem C1_text_tokens:
  "(truthy (cc_text cc) \<longrightarrow>
      buildCodeableConceptToken result sp cs (Some cc) =
        foldl (\<lambda>r coding. buildCodingToken r sp cs (Some coding))
          (if list_ex (\<lambda>t. tk_code t = sp_code sp \<and> tk_system t = Some ''text'' \<and>
                            tk_value t = cc_text cc) result
           then result
           else result @
             [\<lparr>tk_code = sp_code sp, tk_system = Some ''text'',
               tk_value = (if cs then cc_text cc else map_option toLocaleLowerCase (cc_text cc))\<rparr>])
          (case cc_coding cc of None \<Rightarrow> [] | Some codings \<Rightarrow> codings)) \<and>
   (truthy (cd_display c) \<longrightarrow>
      buildCodingToken result sp cs (Some c) =
        buildSimpleToken
          (if list_ex (\<lambda>t. tk_code t = sp_code sp \<and> tk_system t = Some ''text'' \<and>
                            tk_value t = cd_display c) result
           then result
           else result @
             [\<lparr>tk_code = sp_code sp, tk_system = Some ''text'',
               tk_value = (if cs then cd_display c else map_option toLocaleLowerCase (cd_display c))\<rparr>])
          sp cs (cd_system c) (cd_code c)) \<and>
   ((truthy (cd_system c) \<or> truthy (cd_code c)) \<and>
    \<not> list_ex (\<lambda>t. tk_code t = sp_code sp \<and> tk_system t = cd_system c \<and>
                     tk_value t = cd_code c) result \<longrightarrow>
      buildSimpleToken result sp cs (cd_system c) (cd_code c) =
        result @
          [\<lparr>tk_code = sp_code sp, tk_system = cd_system c,
            tk_value = (if truthy (cd_code c) \<and> \<not> cs
                        then map_option toLocaleLowerCase (cd_code c) else cd_code c)\<rparr>])"
proof -
  have text_token: "buildSimpleToken r sp cs (Some ''text'') v =
      (if list_ex (\<lambda>t. tk_code t = sp_code sp \<and> tk_system t = Some ''text'' \<and> tk_value t = v) r
       then r
       else r @ [\<lparr>tk_code = sp_code sp, tk_system = Some ''text'',
                   tk_value = (if cs then v else map_option toLocaleLowerCase v)\<rparr>])"
    if "truthy v" for r v
    using that by (simp add: buildSimpleToken_def)
  have cc: "truthy (cc_text cc) \<longrightarrow>
      buildCodeableConceptToken result sp cs (Some cc) =
        foldl (\<lambda>r coding. buildCodingToken r sp cs (Some coding))
          (if list_ex (\<lambda>t. tk_code t = sp_code sp \<and> tk_system t = Some ''text'' \<and>
                            tk_value t = cc_text cc) result
           then result
           else result @
             [\<lparr>tk_code = sp_code sp, tk_system = Some ''text'',
               tk_value = (if cs then cc_text cc else map_option toLocaleLowerCase (cc_text cc))\<rparr>])
          (case cc_coding cc of None \<Rightarrow> [] | Some codings \<Rightarrow> codings)"
    by (simp add: buildCodeableConceptToken_def text_token)
  have cd: "truthy (cd_display c) \<longrightarrow>
      buildCodingToken result sp cs (Some c) =
        buildSimpleToken
          (if list_ex (\<lambda>t. tk_code t = sp_code sp \<and> tk_system t = Some ''text'' \<and>
                            tk_value t = cd_display c) result
           then result
           else result @
             [\<lparr>tk_code = sp_code sp, tk_system = Some ''text'',
               tk_value = (if cs then cd_display c else map_option toLocaleLowerCase (cd_display c))\<rparr>])
          sp cs (cd_system c) (cd_code c)"
    by (simp add: buildCodingToken_def text_token)
  have sv: "(truthy (cd_system c) \<or> truthy (cd_code c)) \<and>
    \<not> list_ex (\<lambda>t. tk_code t = sp_code sp \<and> tk_system t = cd_system c \<and>
                     tk_value t = cd_code c) result \<longrightarrow>
      buildSimpleToken result sp cs (cd_system c) (cd_code c) =
        result @
          [\<lparr>tk_code = sp_code sp, tk_system = cd_system c,
            tk_value = (if truthy (cd_code c) \<and> \<not> cs
                        then map_option toLocaleLowerCase (cd_code c) else cd_code c)\<rparr>]"
    by (simp add: buildSimpleToken_def)
  from cc cd sv show ?thesis by blast
qed

theorem C1_text_tokens_witness:
  "buildCodeableConceptToken [] codeParam True
     (Some \<lparr>cc_coding = Some [\<lparr>cd_system = Some ''http://loinc.org'', cd_code = Some ''8310-5'',
                                cd_display = Some ''Body temperature''\<rparr>],
            cc_text = Some ''Fever''\<rparr>) =
   [\<lparr>tk_code = ''code'', tk_system = Some ''text'', tk_value = Some ''Fever''\<rparr>,
    \<lparr>tk_code = ''code'', tk_system = Some ''text'', tk_value = Some ''Body temperature''\<rparr>,
    \<lparr>tk_code = ''code'', tk_system = Some ''http://loinc.org'', tk_value = Some ''8310-5''\<rparr>]"
  using C1_text_tokens [of "\<lparr>cc_coding = Some [\<lparr>cd_system = Some ''http://loinc.org'', cd_code = Some ''8310-5'',
                                cd_display = Some ''Body temperature''\<rparr>],
            cc_text = Some ''Fever''\<rparr>" "[]" codeParam True
        "\<lparr>cd_system = Some ''http://loinc.org'', cd_code = Some ''8310-5'',
                                cd_display = Some ''Body temperature''\<rparr>"]
    C1_text_tokens [of "\<lparr>cc_coding = None, cc_text = None\<rparr>"
        "[\<lparr>tk_code = ''code'', tk_system = Some ''text'', tk_value = Some ''Fever''\<rparr>]" codeParam True
        "\<lparr>cd_system = Some ''http://loinc.org'', cd_code = Some ''8310-5'',
                                cd_display = Some ''Body temperature''\<rparr>"]
    C1_text_tokens [of "\<lparr>cc_coding = None, cc_text = None\<rparr>"
        "[\<lparr>tk_code = ''code'', tk_system = Some ''text'', tk_value = Some ''Fever''\<rparr>,
          \<lparr>tk_code = ''code'', tk_system = Some ''text'', tk_value = Some ''Body temperature''\<rparr>]" codeParam True
        "\<lparr>cd_system = Some ''http://loinc.org'', cd_code = Some ''8310-5'',
                                cd_display = Some ''Body temperature''\<rparr>"]
  by (simp add: codeParam_def)

text \<open>
  C1 as the spec states it does not hold: the token queued for the text \<open>Fever\<close> of a
  CodeableConcept of the parameter \<open>code\<close> has the code \<open>code\<close> and the system \<open>text\<close>,
  and no token with the code \<open>text\<close> and no system is queued.
\<close>

theorem C1_counterexample:
  "buildCodeableConceptToken [] codeParam True (Some \<lparr>cc_coding = None, cc_text = Some ''Fever''\<rparr>) =
     [\<lparr>tk_code = ''code'', tk_system = Some ''text'', tk_value = Some ''Fever''\<rparr>] \<and>
   \<lparr>tk_code = ''text'', tk_system = None, tk_value = Some ''Fever''\<rparr> \<notin>
     set (buildCodeableConceptToken [] codeParam True (Some \<lparr>cc_coding = None, cc_text = Some ''Fever''\<rparr>)) \<and>
   \<lparr>tk_code = ''text'', tk_system = None, tk_value = Some ''Body temperature''\<rparr> \<notin>
     set (buildCodingToken [] codeParam True
            (Some \<lparr>cd_system = Some ''http://loinc.org'', cd_code = Some ''8310-5'',
                    cd_display = Some ''Body temperature''\<rparr>))"
  by (simp add: buildCodeableConceptToken_def buildCodingToken_def buildSimpleToken_def codeParam_def)

subsection \<open>The rows written by indexResource\<close>

text \<open>
  What holds of the stored rows: a stored system or value is the trimmed one of a token and
  never the empty string, and under a case-sensitive parameter \<open>buildSimpleToken\<close> keeps
  a list without duplicates free of them.
\<close>

lemma trimOrUndefined_not_empty: "trimOrUndefined s \<noteq> Some []"
  by (cases s) (simp_all add: trimOrUndefined_def)

lemma trimOrUndefined_trimmed:
  "trimOrUndefined s = Some t \<Longrightarrow> \<exists>x. s = Some x \<and> t = trim x"
  by (cases s) (simp_all add: trimOrUndefined_def split: if_splits)

lemma stored_rows_trimmed:
  assumes "row \<in> set (indexResource R emptyDatabase resource create
                         (getTableName (res_resourceType resource)))"
  shows "row_system row \<noteq> Some [] \<and> row_value row \<noteq> Some [] \<and>
         (\<exists>token \<in> set (getTokens R resource).
            row_system row = trimOrUndefined (tk_system token) \<and>
            row_value row = trimOrUndefined (tk_value token))"
  using assms
  by (cases create) (auto simp: indexResource_def insertValuesForResource_def deleteValuesForResource_def
      emptyDatabase_def tokenRow_def trimOrUndefined_not_empty Let_def)

lemma buildSimpleToken_distinct:
  "distinct result \<Longrightarrow> distinct (buildSimpleToken result searchParam True system val)"
  by (auto simp: buildSimpleToken_def list_ex_iff)

text \<open>
  C2, at an input where the stored rows are not distinct. A patient with the identifier
  values \<open>123\<close> and \<open>123\<close> followed by a space, under one system: the tuples differ when
  they are queued and are equal after \<open>indexResource\<close> has trimmed them. The second fact
  is the same comparison missing on the case: under a parameter that is not case-sensitive
  the queued value is in lower case and is compared with the candidate as it came, so the
  value \<open>ABC\<close> is queued twice.
\<close>

theorem C2_duplicate_rows:
  "indexResource exampleRegistry emptyDatabase
     (patientWith ''r1'' [\<lparr>id_system = Some ''http://example.org'', id_value = Some ''123''\<rparr>,
                          \<lparr>id_system = Some ''http://example.org'', id_value = Some ''123 ''\<rparr>]) True
     ''Patient_Token'' =
   [\<lparr>row_resourceId = ''r1'', row_code = ''identifier'', row_system = Some ''http://example.org'', row_value = Some ''123''\<rparr>,
    \<lparr>row_resourceId = ''r1'', row_code = ''identifier'', row_system = Some ''http://example.org'', row_value = Some ''123''\<rparr>]
   \<and> buildSimpleToken (buildSimpleToken [] identifierParam False None (Some ''ABC'')) identifierParam False None (Some ''ABC'')
     = [\<lparr>tk_code = ''identifier'', tk_system = None, tk_value = Some ''abc''\<rparr>,
        \<lparr>tk_code = ''identifier'', tk_system = None, tk_value = Some ''abc''\<rparr>]"
  by (simp add: example_defs extract_defs store_defs toLocaleLowerCase_def toLowerCaseChar_def)

text \<open>
  C3, at an input where a stored row has neither system nor value: an identifier without a
  system whose value is one space passes the test of \<open>buildSimpleToken\<close> and is trimmed to
  nothing by \<open>indexResource\<close>.
\<close>

theorem C3_row_without_system_and_value:
  "indexResource exampleRegistry emptyDatabase
     (patientWith ''r1'' [\<lparr>id_system = None, id_value = Some '' ''\<rparr>]) True
     ''Patient_Token'' =
   [\<lparr>row_resourceId = ''r1'', row_code = ''identifier'', row_system = None, row_value = None\<rparr>]"
  by (simp add: example_defs extract_defs store_defs)

subsection \<open>The operators missing and present\<close>

lemma buildWhereExpression_boolean:
  assumes op: "f_operator flt = MISSING \<or> f_operator flt = PRESENT"
    and lit: "toLowerCase (f_value flt) = ''true'' \<or> toLowerCase (f_value flt) = ''false''"
  shows "buildWhereExpression
           \<lparr>fc_searchParam = param, fc_lookupTableName = t, fc_caseSensitive = cs, fc_filter = flt\<rparr> = None"
proof -
  from boolean_literal_plain [OF lit]
  have "splitSearchOnComma (f_value flt) = [f_value flt]"
    and "splitN (f_value flt) (CHR ''|'') 2 = [f_value flt]"
    by (simp_all add: splitSearchOnComma_plain splitN_plain)
  with op show ?thesis
    by (auto simp: buildWhereExpression_def buildWhereCondition_def)
qed

lemma buildWhere_boolean:
  assumes op: "f_operator flt = MISSING \<or> f_operator flt = PRESENT"
    and lit: "toLowerCase (f_value flt) = ''true'' \<or> toLowerCase (f_value flt) = ''false''"
  shows "buildWhere R rt rtn param flt =
     (let exists = SqlFunction ''EXISTS''
            [SelectQuery (getTableName rt) []
               [Conjunction
                  [Condition (Column rtn ''id'') ''=''
                     (ColumnParam (Column (getTableName rt) ''resourceId'')) None,
                   Condition (Column (getTableName rt) ''code'') ''=''
                     (StringParam (f_code flt)) None]] None]
      in if (f_operator flt = MISSING) = (toLowerCase (f_value flt) = ''false'')
         then Inr exists else Inr (Negation exists))"
  using op lit
  by (auto simp: buildWhere_def buildWhereExpression_boolean [OF op lit] shouldTokenRowExist_def Let_def)

text \<open>
  C4: for a filter with the operator MISSING or PRESENT, \<open>buildWhere\<close> fails with the bad
  request error whenever the lower-cased raw value is neither \<open>true\<close> nor \<open>false\<close>.
  Otherwise missing=true and present=false compile to the negated EXISTS test, which
  selects the resources with no token row for the code, and missing=false and present=true
  compile to the EXISTS test, which selects the resources with at least one.
\<close>

theorem C4_missing_present:
  assumes "f_operator flt = MISSING \<or> f_operator flt = PRESENT"
  shows
    "(toLowerCase (f_value flt) \<noteq> ''true'' \<and> toLowerCase (f_value flt) \<noteq> ''false'' \<longrightarrow>
        buildWhere R rt rtn param flt = Inl (BadRequest missingValueMessage)) \<and>
     (f_operator flt = MISSING \<and> toLowerCase (f_value flt) = ''true'' \<or>
      f_operator flt = PRESENT \<and> toLowerCase (f_value flt) = ''false'' \<longrightarrow>
        (\<exists>q. buildWhere R rt rtn param flt = Inr (Negation (SqlFunction ''EXISTS'' [q])) \<and>
             (\<forall>ops db rid.
                selects ops db rtn (Negation (SqlFunction ''EXISTS'' [q])) rid \<longleftrightarrow>
                \<not> (\<exists>row \<in> set (db (getTableName rt)).
                      row_resourceId row = rid \<and> row_code row = f_code flt)))) \<and>
     (f_operator flt = MISSING \<and> toLowerCase (f_value flt) = ''false'' \<or>
      f_operator flt = PRESENT \<and> toLowerCase (f_value flt) = ''true'' \<longrightarrow>
        (\<exists>q. buildWhere R rt rtn param flt = Inr (SqlFunction ''EXISTS'' [q]) \<and>
             (\<forall>ops db rid.
                selects ops db rtn (SqlFunction ''EXISTS'' [q]) rid \<longleftrightarrow>
                (\<exists>row \<in> set (db (getTableName rt)).
                   row_resourceId row = rid \<and> row_code row = f_code flt))))"
proof (intro conjI impI)
  assume "toLowerCase (f_value flt) \<noteq> ''true'' \<and> toLowerCase (f_value flt) \<noteq> ''false''"
  with assms show "buildWhere R rt rtn param flt = Inl (BadRequest missingValueMessage)"
    by (auto simp: buildWhere_def shouldTokenRowExist_def Let_def)
next
  assume neg: "f_operator flt = MISSING \<and> toLowerCase (f_value flt) = ''true'' \<or>
      f_operator flt = PRESENT \<and> toLowerCase (f_value flt) = ''false''"
  then have lit: "toLowerCase (f_value flt) = ''true'' \<or> toLowerCase (f_value flt) = ''false''"
    by auto
  from neg have "buildWhere R rt rtn param flt =
      Inr (Negation (SqlFunction ''EXISTS''
            [SelectQuery (getTableName rt) []
               [Conjunction
                  [Condition (Column rtn ''id'') ''=''
                     (ColumnParam (Column (getTableName rt) ''resourceId'')) None,
                   Condition (Column (getTableName rt) ''code'') ''=''
                     (StringParam (f_code flt)) None]] None]))"
    by (auto simp: buildWhere_boolean [OF assms lit])
  then show "\<exists>q. buildWhere R rt rtn param flt = Inr (Negation (SqlFunction ''EXISTS'' [q])) \<and>
             (\<forall>ops db rid.
                selects ops db rtn (Negation (SqlFunction ''EXISTS'' [q])) rid \<longleftrightarrow>
                \<not> (\<exists>row \<in> set (db (getTableName rt)).
                      row_resourceId row = rid \<and> row_code row = f_code flt))"
    by (simp add: selects_not_exists del: evalExpression.simps)
next
  assume pos: "f_operator flt = MISSING \<and> toLowerCase (f_value flt) = ''false'' \<or>
      f_operator flt = PRESENT \<and> toLowerCase (f_value flt) = ''true''"
  then have lit: "toLowerCase (f_value flt) = ''true'' \<or> toLowerCase (f_value flt) = ''false''"
    by auto
  from pos have "buildWhere R rt rtn param flt =
      Inr (SqlFunction ''EXISTS''
            [SelectQuery (getTableName rt) []
               [Conjunction
                  [Condition (Column rtn ''id'') ''=''
                     (ColumnParam (Column (getTableName rt) ''resourceId'')) None,
                   Condition (Column (getTableName rt) ''code'') ''=''
                     (StringParam (f_code flt)) None]] None])"
    by (auto simp: buildWhere_boolean [OF assms lit])
  then show "\<exists>q. buildWhere R rt rtn param flt = Inr (SqlFunction ''EXISTS'' [q]) \<and>
             (\<forall>ops db rid.
                selects ops db rtn (SqlFunction ''EXISTS'' [q]) rid \<longleftrightarrow>
                (\<exists>row \<in> set (db (getTableName rt)).
                   row_resourceId row = rid \<and> row_code row = f_code flt))"
    by (simp add: selects_exists del: evalExpression.simps)
qed

theorem C4_missing_present_witness:
  "buildWhere exampleRegistry ''Patient'' ''Patient'' identifierParam
       \<lparr>f_code = ''identifier'', f_operator = MISSING, f_value = ''maybe''\<rparr> =
     Inl (BadRequest missingValueMessage) \<and>
   (\<exists>q. buildWhere exampleRegistry ''Patient'' ''Patient'' identifierParam
           \<lparr>f_code = ''identifier'', f_operator = MISSING, f_value = ''TRUE''\<rparr> =
         Inr (Negation (SqlFunction ''EXISTS'' [q])) \<and>
         \<not> selects noDatabaseOperators roundTripDatabase ''Patient''
             (Negation (SqlFunction ''EXISTS'' [q])) ''r1'' \<and>
         selects noDatabaseOperators roundTripDatabase ''Patient''
             (Negation (SqlFunction ''EXISTS'' [q])) ''r3'') \<and>
   (\<exists>q. buildWhere exampleRegistry ''Patient'' ''Patient'' identifierParam
           \<lparr>f_code = ''identifier'', f_operator = PRESENT, f_value = ''true''\<rparr> =
         Inr (SqlFunction ''EXISTS'' [q]) \<and>
         selects noDatabaseOperators roundTripDatabase ''Patient'' (SqlFunction ''EXISTS'' [q]) ''r1'' \<and>
         \<not> selects noDatabaseOperators roundTripDatabase ''Patient'' (SqlFunction ''EXISTS'' [q]) ''r3'')"
proof -
  let ?bad = "\<lparr>f_code = ''identifier'', f_operator = MISSING, f_value = ''maybe''\<rparr>"
  let ?missing = "\<lparr>f_code = ''identifier'', f_operator = MISSING, f_value = ''TRUE''\<rparr>"
  let ?present = "\<lparr>f_code = ''identifier'', f_operator = PRESENT, f_value = ''true''\<rparr>"
  have lower: "toLowerCase ''maybe'' = ''maybe''" "toLowerCase ''TRUE'' = ''true''"
      "toLowerCase ''true'' = ''true''"
    by (simp_all add: toLowerCase_def toLowerCaseChar_def)
  have tn: "getTableName ''Patient'' = ''Patient_Token''"
    by (simp add: getTableName_def)
  have bad: "buildWhere exampleRegistry ''Patient'' ''Patient'' identifierParam ?bad =
     Inl (BadRequest missingValueMessage)"
    using C4_missing_present [of ?bad exampleRegistry "''Patient''" "''Patient''" identifierParam]
    by (simp add: lower)
  have missing: "\<exists>q. buildWhere exampleRegistry ''Patient'' ''Patient'' identifierParam ?missing =
         Inr (Negation (SqlFunction ''EXISTS'' [q])) \<and>
         \<not> selects noDatabaseOperators roundTripDatabase ''Patient''
             (Negation (SqlFunction ''EXISTS'' [q])) ''r1'' \<and>
         selects noDatabaseOperators roundTripDatabase ''Patient''
             (Negation (SqlFunction ''EXISTS'' [q])) ''r3''"
  proof -
    from C4_missing_present [of ?missing exampleRegistry "''Patient''" "''Patient''" identifierParam]
    obtain q where q: "buildWhere exampleRegistry ''Patient'' ''Patient'' identifierParam ?missing =
          Inr (Negation (SqlFunction ''EXISTS'' [q]))"
      and sem: "\<And>ops db rid.
          selects ops db ''Patient'' (Negation (SqlFunction ''EXISTS'' [q])) rid \<longleftrightarrow>
          \<not> (\<exists>row \<in> set (db ''Patient_Token'').
                row_resourceId row = rid \<and> row_code row = ''identifier'')"
      by (auto simp: lower tn)
    show ?thesis
      using q by (auto simp: sem roundTripDatabase_rows)
  qed
  have present: "\<exists>q. buildWhere exampleRegistry ''Patient'' ''Patient'' identifierParam ?present =
         Inr (SqlFunction ''EXISTS'' [q]) \<and>
         selects noDatabaseOperators roundTripDatabase ''Patient'' (SqlFunction ''EXISTS'' [q]) ''r1'' \<and>
         \<not> selects noDatabaseOperators roundTripDatabase ''Patient'' (SqlFunction ''EXISTS'' [q]) ''r3''"
  proof -
    from C4_missing_present [of ?present exampleRegistry "''Patient''" "''Patient''" identifierParam]
    obtain q where q: "buildWhere exampleRegistry ''Patient'' ''Patient'' identifierParam ?present =
          Inr (SqlFunction ''EXISTS'' [q])"
      and sem: "\<And>ops db rid.
          selects ops db ''Patient'' (SqlFunction ''EXISTS'' [q]) rid \<longleftrightarrow>
          (\<exists>row \<in> set (db ''Patient_Token'').
             row_resourceId row = rid \<and> row_code row = ''identifier'')"
      by (auto simp: lower tn)
    show ?thesis
      using q by (auto simp: sem roundTripDatabase_rows)
  qed
  from bad missing present show ?thesis by blast
qed

subsection \<open>Round trip\<close>

lemma roundTrip_where: "buildWhere exampleRegistry ''Patient'' ''Patient'' identifierParam
        \<lparr>f_code = ''identifier'', f_operator = EQUALS, f_value = ''http://example.org|123''\<rparr> = 
  Inr (SqlFunction ''EXISTS''
       [SelectQuery ''Patient_Token'' []
         [Conjunction
           [Condition (Column ''Patient'' ''id'') ''=''
             (ColumnParam (Column ''Patient_Token'' ''resourceId'')) None,
            Condition (Column ''Patient_Token'' ''code'') ''=''
             (StringParam ''identifier'') None,
            Disjunction
             [Conjunction
               [Condition (Column ''Patient_Token'' ''system'') ''=''
                 (StringParam ''http://example.org'') None,
                Condition (Column ''Patient_Token'' ''value'') ''=''
                 (StringParam ''123'') None]]]]
         None])"
  by (simp add: compile_defs example_defs getTokenIndexType_def isCaseSensitiveSearchParameter_def endsWith_def trim_def isWhiteSpace_def)

text \<open>
  C5: after the patient \<open>r1\<close> with the identifier \<open>http://example.org|123\<close> and the patient
  \<open>r2\<close> with the value \<open>124\<close> have been indexed, the expression that \<open>buildWhere\<close> compiles
  for the parameter \<open>identifier\<close>, the operator EQUALS and the raw value
  \<open>http://example.org|123\<close> selects \<open>r1\<close> and does not select \<open>r2\<close>.
\<close>

theorem C5_round_trip:
  "\<exists>e. buildWhere exampleRegistry ''Patient'' ''Patient'' identifierParam
        \<lparr>f_code = ''identifier'', f_operator = EQUALS, f_value = ''http://example.org|123''\<rparr> = Inr e \<and>
       selects ops roundTripDatabase ''Patient'' e ''r1'' \<and>
       \<not> selects ops roundTripDatabase ''Patient'' e ''r2''"
  by (simp add: roundTrip_where roundTripDatabase_rows eval_defs)

subsection \<open>Negation\<close>

text \<open>
  C6: for the operators NOT_EQUALS and NOT, \<open>buildWhere\<close> negates the EXISTS test; for every
  other operator that compares the token value the EXISTS test is kept as it is. A filter
  NOT_EQUALS (or NOT) with the plain value \<open>X\<close> (no comma, bar or backslash, no white space
  around it) does not select a resource that has tokens for the code all of which have the
  value \<open>X\<close>, and selects a resource that has no token for the code.
\<close>

theorem C6_negation:
  "(f_operator flt = NOT_EQUALS \<or> f_operator flt = NOT \<longrightarrow>
      (\<exists>q. buildWhere R rt rtn param flt = Inr (Negation (SqlFunction ''EXISTS'' [q])))) \<and>
   (shouldCompareTokenValue (f_operator flt) \<and> f_operator flt \<noteq> NOT_EQUALS \<and> f_operator flt \<noteq> NOT \<longrightarrow>
      (\<exists>q. buildWhere R rt rtn param flt = Inr (SqlFunction ''EXISTS'' [q]))) \<and>
   ((f_operator flt = NOT_EQUALS \<or> f_operator flt = NOT) \<and> f_value flt = X \<and>
    CHR '','' \<notin> set X \<and> CHR ''|'' \<notin> set X \<and> CHR 0x5C \<notin> set X \<and> trim X = X \<longrightarrow>
      (\<exists>e. buildWhere R rt rtn param flt = Inr e \<and>
         (\<forall>ops db rid.
            ((\<exists>row \<in> set (db (getTableName rt)).
                 row_resourceId row = rid \<and> row_code row = f_code flt) \<and>
             (\<forall>row \<in> set (db (getTableName rt)).
                 row_resourceId row = rid \<and> row_code row = f_code flt \<longrightarrow> row_value row = Some X)
               \<longrightarrow> \<not> selects ops db rtn e rid) \<and>
            (\<not> (\<exists>row \<in> set (db (getTableName rt)).
                   row_resourceId row = rid \<and> row_code row = f_code flt)
               \<longrightarrow> selects ops db rtn e rid))))"
proof (intro conjI impI)
  assume "f_operator flt = NOT_EQUALS \<or> f_operator flt = NOT"
  then show "\<exists>q. buildWhere R rt rtn param flt = Inr (Negation (SqlFunction ''EXISTS'' [q]))"
    by (auto simp: buildWhere_def shouldTokenRowExist_def Let_def)
next
  assume "shouldCompareTokenValue (f_operator flt) \<and> f_operator flt \<noteq> NOT_EQUALS \<and> f_operator flt \<noteq> NOT"
  then show "\<exists>q. buildWhere R rt rtn param flt = Inr (SqlFunction ''EXISTS'' [q])"
    by (auto simp: buildWhere_def shouldTokenRowExist_def Let_def)
next
  assume a: "(f_operator flt = NOT_EQUALS \<or> f_operator flt = NOT) \<and> f_value flt = X \<and>
    CHR '','' \<notin> set X \<and> CHR ''|'' \<notin> set X \<and> CHR 0x5C \<notin> set X \<and> trim X = X"
  let ?ctx = "\<lparr>fc_searchParam = param, fc_lookupTableName = getTableName rt,
               fc_caseSensitive = isCaseSensitiveSearchParameter R param rt, fc_filter = flt\<rparr>"
  let ?e = "Negation (SqlFunction ''EXISTS''
            [SelectQuery (getTableName rt) []
               [Conjunction
                  (Condition (Column rtn ''id'') ''=''
                     (ColumnParam (Column (getTableName rt) ''resourceId'')) None #
                   Condition (Column (getTableName rt) ''code'') ''=''
                     (StringParam (f_code flt)) None #
                   [Disjunction [buildValueCondition ?ctx X]])] None])"
  from a have op: "shouldCompareTokenValue (f_operator flt)" "f_operator flt \<noteq> TEXT"
      "f_operator flt \<noteq> CONTAINS"
    by auto
  from a have inner: "buildWhereExpression ?ctx = Some (Disjunction [buildValueCondition ?ctx X])"
    using buildWhereExpression_single [OF op(1), of param "getTableName rt"
        "isCaseSensitiveSearchParameter R param rt"]
    by simp
  from a have bw: "buildWhere R rt rtn param flt = Inr ?e"
    by (auto simp: buildWhere_def inner shouldTokenRowExist_def Let_def)
  have excl: "\<not> selects ops db rtn ?e rid"
    if some: "\<exists>row \<in> set (db (getTableName rt)). row_resourceId row = rid \<and> row_code row = f_code flt"
      and all: "\<forall>row \<in> set (db (getTableName rt)).
                 row_resourceId row = rid \<and> row_code row = f_code flt \<longrightarrow> row_value row = Some X"
    for ops db rid
  proof -
    from some obtain row where row: "row \<in> set (db (getTableName rt))"
        "row_resourceId row = rid" "row_code row = f_code flt"
      by blast
    with all a have "row_value row = Some (trim X)" by simp
    from value_condition_selects [OF op(2) op(3) this]
    have "evalExpression ops db (bindRow (resourceBindings rtn rid) (getTableName rt) row)
            (Disjunction [buildValueCondition ?ctx X]) = Some True"
      by (simp add: or3_True)
    with row show ?thesis
      by (simp only: selects_not_exists) auto
  qed
  have incl: "selects ops db rtn ?e rid"
    if "\<not> (\<exists>row \<in> set (db (getTableName rt)). row_resourceId row = rid \<and> row_code row = f_code flt)"
    for ops db rid
    using that by (simp only: selects_not_exists) auto
  from bw excl incl
  show "\<exists>e. buildWhere R rt rtn param flt = Inr e \<and>
         (\<forall>ops db rid.
            ((\<exists>row \<in> set (db (getTableName rt)).
                 row_resourceId row = rid \<and> row_code row = f_code flt) \<and>
             (\<forall>row \<in> set (db (getTableName rt)).
                 row_resourceId row = rid \<and> row_code row = f_code flt \<longrightarrow> row_value row = Some X)
               \<longrightarrow> \<not> selects ops db rtn e rid) \<and>
            (\<not> (\<exists>row \<in> set (db (getTableName rt)).
                   row_resourceId row = rid \<and> row_code row = f_code flt)
               \<longrightarrow> selects ops db rtn e rid))"
    by blast
qed

theorem C6_negation_witness:
  "(\<exists>q. buildWhere exampleRegistry ''Patient'' ''Patient'' identifierParam
           \<lparr>f_code = ''identifier'', f_operator = NOT_EQUALS, f_value = ''X''\<rparr> =
         Inr (Negation (SqlFunction ''EXISTS'' [q]))) \<and>
   (\<exists>q. buildWhere exampleRegistry ''Patient'' ''Patient'' identifierParam
           \<lparr>f_code = ''identifier'', f_operator = EQUALS, f_value = ''X''\<rparr> =
         Inr (SqlFunction ''EXISTS'' [q])) \<and>
   (\<exists>e. buildWhere exampleRegistry ''Patient'' ''Patient'' identifierParam
           \<lparr>f_code = ''identifier'', f_operator = NOT_EQUALS, f_value = ''X''\<rparr> = Inr e \<and>
         \<not> selects noDatabaseOperators (tokenDatabase ''X'') ''Patient'' e ''r1'' \<and>
         selects noDatabaseOperators (tokenDatabase ''X'') ''Patient'' e ''r2'')"
proof -
  let ?ne = "\<lparr>f_code = ''identifier'', f_operator = NOT_EQUALS, f_value = ''X''\<rparr>"
  let ?eq = "\<lparr>f_code = ''identifier'', f_operator = EQUALS, f_value = ''X''\<rparr>"
  have tn: "getTableName ''Patient'' = ''Patient_Token''"
    by (simp add: getTableName_def)
  have plain: "trim ''X'' = ''X''"
    by (simp add: trim_def isWhiteSpace_def)
  note ne = C6_negation [of ?ne exampleRegistry "''Patient''" "''Patient''" identifierParam "''X''"]
  note eq = C6_negation [of ?eq exampleRegistry "''Patient''" "''Patient''" identifierParam "''X''"]
  from ne have negated: "\<exists>q. buildWhere exampleRegistry ''Patient'' ''Patient'' identifierParam ?ne =
         Inr (Negation (SqlFunction ''EXISTS'' [q]))"
    by simp
  from eq have kept: "\<exists>q. buildWhere exampleRegistry ''Patient'' ''Patient'' identifierParam ?eq =
         Inr (SqlFunction ''EXISTS'' [q])"
    by simp
  from ne obtain e where e: "buildWhere exampleRegistry ''Patient'' ''Patient'' identifierParam ?ne = Inr e"
    and excl: "\<And>ops db rid.
        (\<exists>row \<in> set (db ''Patient_Token'').
            row_resourceId row = rid \<and> row_code row = ''identifier'') \<Longrightarrow>
        (\<forall>row \<in> set (db ''Patient_Token'').
            row_resourceId row = rid \<and> row_code row = ''identifier'' \<longrightarrow> row_value row = Some ''X'') \<Longrightarrow>
        \<not> selects ops db ''Patient'' e rid"
    and incl: "\<And>ops db rid.
        \<not> (\<exists>row \<in> set (db ''Patient_Token'').
            row_resourceId row = rid \<and> row_code row = ''identifier'') \<Longrightarrow>
        selects ops db ''Patient'' e rid"
    by (auto simp: tn plain)
  have "\<not> selects noDatabaseOperators (tokenDatabase ''X'') ''Patient'' e ''r1''"
    by (rule excl) (simp_all add: tokenDatabase_X)
  moreover have "selects noDatabaseOperators (tokenDatabase ''X'') ''Patient'' e ''r2''"
    by (rule incl) (simp add: tokenDatabase_X)
  ultimately show ?thesis
    using negated kept e by blast
qed

subsection \<open>Comma-separated options\<close>

text \<open>
  C7, as the code has it. For a filter with the raw value \<open>a,b,c\<close> whose operator is not
  MISSING, PRESENT or IDENTIFIER, each of the three options compiles to a condition and the
  inner expression is the disjunction of the three. When moreover the operator is not NOT
  or NOT_EQUALS, so that the EXISTS test is not negated, a resource with a token row for
  the code on which the condition of any one of the three options is true is selected.
\<close>

theorem C7_comma_disjunction:
  assumes "f_value flt = ''a,b,c''"
    and "context = \<lparr>fc_searchParam = param, fc_lookupTableName = getTableName rt,
           fc_caseSensitive = isCaseSensitiveSearchParameter R param rt, fc_filter = flt\<rparr>"
  shows
    "(f_operator flt \<noteq> MISSING \<and> f_operator flt \<noteq> PRESENT \<and> f_operator flt \<noteq> IDENTIFIER \<longrightarrow>
        (\<exists>ea eb ec.
           buildWhereCondition context ''a'' = Some ea \<and>
           buildWhereCondition context ''b'' = Some eb \<and>
           buildWhereCondition context ''c'' = Some ec \<and>
           buildWhereExpression context = Some (Disjunction [ea, eb, ec]))) \<and>
     (f_operator flt \<noteq> MISSING \<and> f_operator flt \<noteq> PRESENT \<and> f_operator flt \<noteq> IDENTIFIER \<and>
      f_operator flt \<noteq> NOT \<and> f_operator flt \<noteq> NOT_EQUALS \<longrightarrow>
        (\<exists>e. buildWhere R rt rtn param flt = Inr e \<and>
           (\<forall>ops db rid row option condition.
              row \<in> set (db (getTableName rt)) \<and>
              row_resourceId row = rid \<and> row_code row = f_code flt \<and>
              (option = ''a'' \<or> option = ''b'' \<or> option = ''c'') \<and>
              buildWhereCondition context option = Some condition \<and>
              evalExpression ops db (bindRow (resourceBindings rtn rid) (getTableName rt) row)
                condition = Some True
              \<longrightarrow> selects ops db rtn e rid)))"
proof (intro conjI impI)
  have split: "splitSearchOnComma (f_value flt) = [''a'', ''b'', ''c'']"
    by (simp add: assms(1) splitSearchOnComma_def)
  have plain: "CHR ''|'' \<notin> set ''a''" "CHR ''|'' \<notin> set ''b''" "CHR ''|'' \<notin> set ''c''"
    by simp_all
  have some: "\<exists>ea eb ec.
      buildWhereCondition context ''a'' = Some ea \<and>
      buildWhereCondition context ''b'' = Some eb \<and>
      buildWhereCondition context ''c'' = Some ec \<and>
      buildWhereExpression context = Some (Disjunction [ea, eb, ec])"
    if "f_operator flt \<noteq> MISSING \<and> f_operator flt \<noteq> PRESENT \<and> f_operator flt \<noteq> IDENTIFIER"
  proof -
    from that operator_cases [of "f_operator flt"]
    have "f_operator flt = IN \<or> f_operator flt = NOT_IN \<or> shouldCompareTokenValue (f_operator flt)"
      by blast
    moreover have "f_operator (fc_filter context) = f_operator flt"
      by (simp add: assms(2))
    ultimately have "\<exists>e. buildWhereCondition context option = Some e"
      if "CHR ''|'' \<notin> set option" for option
      using that by (auto simp: buildWhereCondition_plain)
    from this [OF plain(1)] this [OF plain(2)] this [OF plain(3)]
    obtain ea eb ec where conds:
      "buildWhereCondition context ''a'' = Some ea"
      "buildWhereCondition context ''b'' = Some eb"
      "buildWhereCondition context ''c'' = Some ec"
      by blast
    have "f_value (fc_filter context) = f_value flt"
      by (simp add: assms(2))
    have "buildWhereExpression context = Some (Disjunction [ea, eb, ec])"
      using split conds \<open>f_value (fc_filter context) = f_value flt\<close>
      by (simp add: buildWhereExpression_def)
    with conds show ?thesis by blast
  qed
  {
    assume "f_operator flt \<noteq> MISSING \<and> f_operator flt \<noteq> PRESENT \<and> f_operator flt \<noteq> IDENTIFIER"
    then show "\<exists>ea eb ec.
      buildWhereCondition context ''a'' = Some ea \<and>
      buildWhereCondition context ''b'' = Some eb \<and>
      buildWhereCondition context ''c'' = Some ec \<and>
      buildWhereExpression context = Some (Disjunction [ea, eb, ec])"
      by (rule some)
  }
  assume op: "f_operator flt \<noteq> MISSING \<and> f_operator flt \<noteq> PRESENT \<and> f_operator flt \<noteq> IDENTIFIER \<and>
      f_operator flt \<noteq> NOT \<and> f_operator flt \<noteq> NOT_EQUALS"
  then obtain ea eb ec where conds:
      "buildWhereCondition context ''a'' = Some ea"
      "buildWhereCondition context ''b'' = Some eb"
      "buildWhereCondition context ''c'' = Some ec"
    and inner: "buildWhereExpression context = Some (Disjunction [ea, eb, ec])"
    using some by blast
  let ?e = "SqlFunction ''EXISTS''
            [SelectQuery (getTableName rt) []
               [Conjunction
                  (Condition (Column rtn ''id'') ''=''
                     (ColumnParam (Column (getTableName rt) ''resourceId'')) None #
                   Condition (Column (getTableName rt) ''code'') ''=''
                     (StringParam (f_code flt)) None #
                   [Disjunction [ea, eb, ec]])] None]"
  from op have exist: "shouldTokenRowExist flt = Inr True"
    by (auto simp: shouldTokenRowExist_def)
  have bw: "buildWhere R rt rtn param flt = Inr ?e"
    using inner by (simp add: buildWhere_def exist Let_def assms(2) [symmetric])
  have sel: "selects ops db rtn ?e rid"
    if "row \<in> set (db (getTableName rt))" "row_resourceId row = rid" "row_code row = f_code flt"
      "option = ''a'' \<or> option = ''b'' \<or> option = ''c''"
      "buildWhereCondition context option = Some condition"
      "evalExpression ops db (bindRow (resourceBindings rtn rid) (getTableName rt) row)
         condition = Some True"
    for ops db rid row option condition
  proof -
    from that(4-6) conds
    have "evalExpression ops db (bindRow (resourceBindings rtn rid) (getTableName rt) row)
            (Disjunction [ea, eb, ec]) = Some True"
      by (auto simp: or3_True)
    with that(1-3) show ?thesis
      by (simp only: selects_exists) auto
  qed
  from bw sel
  show "\<exists>e. buildWhere R rt rtn param flt = Inr e \<and>
           (\<forall>ops db rid row option condition.
              row \<in> set (db (getTableName rt)) \<and>
              row_resourceId row = rid \<and> row_code row = f_code flt \<and>
              (option = ''a'' \<or> option = ''b'' \<or> option = ''c'') \<and>
              buildWhereCondition context option = Some condition \<and>
              evalExpression ops db (bindRow (resourceBindings rtn rid) (getTableName rt) row)
                condition = Some True
              \<longrightarrow> selects ops db rtn e rid)"
    by blast
qed

theorem C7_comma_disjunction_witness:
  "(\<exists>ea eb ec.
      buildWhereExpression
        \<lparr>fc_searchParam = identifierParam, fc_lookupTableName = getTableName ''Patient'',
         fc_caseSensitive = isCaseSensitiveSearchParameter exampleRegistry identifierParam ''Patient'',
         fc_filter = \<lparr>f_code = ''identifier'', f_operator = EQUALS, f_value = ''a,b,c''\<rparr>\<rparr> =
      Some (Disjunction [ea, eb, ec])) \<and>
   (\<exists>e. buildWhere exampleRegistry ''Patient'' ''Patient'' identifierParam
           \<lparr>f_code = ''identifier'', f_operator = EQUALS, f_value = ''a,b,c''\<rparr> = Inr e \<and>
         selects noDatabaseOperators (tokenDatabase ''b'') ''Patient'' e ''r1'')"
proof -
  let ?flt = "\<lparr>f_code = ''identifier'', f_operator = EQUALS, f_value = ''a,b,c''\<rparr>"
  let ?ctx = "\<lparr>fc_searchParam = identifierParam, fc_lookupTableName = getTableName ''Patient'',
         fc_caseSensitive = isCaseSensitiveSearchParameter exampleRegistry identifierParam ''Patient'',
         fc_filter = ?flt\<rparr>"
  let ?row = "\<lparr>row_resourceId = ''r1'', row_code = ''identifier'', row_system = None,
               row_value = Some ''b''\<rparr>"
  let ?cond = "Condition (Column (getTableName ''Patient'') ''value'') ''='' (StringParam ''b'') None"
  note c7 = C7_comma_disjunction [of ?flt ?ctx identifierParam "''Patient''" exampleRegistry "''Patient''"]
  from c7 have first: "\<exists>ea eb ec. buildWhereExpression ?ctx = Some (Disjunction [ea, eb, ec])"
    by auto
  from c7 have "\<exists>e. buildWhere exampleRegistry ''Patient'' ''Patient'' identifierParam ?flt = Inr e \<and>
      (\<forall>ops db rid row option condition.
         row \<in> set (db (getTableName ''Patient'')) \<and>
         row_resourceId row = rid \<and> row_code row = f_code ?flt \<and>
         (option = ''a'' \<or> option = ''b'' \<or> option = ''c'') \<and>
         buildWhereCondition ?ctx option = Some condition \<and>
         evalExpression ops db (bindRow (resourceBindings ''Patient'' rid) (getTableName ''Patient'') row)
           condition = Some True
         \<longrightarrow> selects ops db ''Patient'' e rid)"
    by simp
  then obtain e where e: "buildWhere exampleRegistry ''Patient'' ''Patient'' identifierParam ?flt = Inr e"
    and sel: "\<forall>ops db rid row option condition.
         row \<in> set (db (getTableName ''Patient'')) \<and>
         row_resourceId row = rid \<and> row_code row = f_code ?flt \<and>
         (option = ''a'' \<or> option = ''b'' \<or> option = ''c'') \<and>
         buildWhereCondition ?ctx option = Some condition \<and>
         evalExpression ops db (bindRow (resourceBindings ''Patient'' rid) (getTableName ''Patient'') row)
           condition = Some True
         \<longrightarrow> selects ops db ''Patient'' e rid"
    by blast
  have cond: "buildWhereCondition ?ctx ''b'' = Some ?cond"
    by (simp add: buildWhereCondition_def buildValueCondition_def identifierParam_case_sensitive
        numeral_2_eq_2 Let_def trim_def isWhiteSpace_def)
  have matching: "?row \<in> set (tokenDatabase ''b'' (getTableName ''Patient'')) \<and>
      row_resourceId ?row = ''r1'' \<and> row_code ?row = f_code ?flt \<and>
      (''b'' = ''a'' \<or> ''b'' = ''b'' \<or> ''b'' = ''c'') \<and>
      buildWhereCondition ?ctx ''b'' = Some ?cond \<and>
      evalExpression noDatabaseOperators (tokenDatabase ''b'')
        (bindRow (resourceBindings ''Patient'' ''r1'') (getTableName ''Patient'') ?row) ?cond = Some True"
    using cond by (simp add: getTableName_def tokenDatabase_b evalCondition_def bindRow_def)
  from sel matching have "selects noDatabaseOperators (tokenDatabase ''b'') ''Patient'' e ''r1''"
    by blast
  with first e show ?thesis by blast
qed

text \<open>
  C7 as the spec states it, for every filter with the raw value \<open>a,b,c\<close>, does not hold:
  under the operator MISSING no option compiles to a condition, there is no inner
  expression and \<open>buildWhere\<close> fails; under NOT_EQUALS the resource whose token has the
  value \<open>b\<close> matches the second option and is not selected.
\<close>

theorem C7_counterexample:
  "buildWhereExpression
     \<lparr>fc_searchParam = identifierParam, fc_lookupTableName = ''Patient_Token'',
      fc_caseSensitive = True,
      fc_filter = \<lparr>f_code = ''identifier'', f_operator = MISSING, f_value = ''a,b,c''\<rparr>\<rparr> = None \<and>
   buildWhere exampleRegistry ''Patient'' ''Patient'' identifierParam
     \<lparr>f_code = ''identifier'', f_operator = MISSING, f_value = ''a,b,c''\<rparr> =
     Inl (BadRequest missingValueMessage) \<and>
   (\<exists>e. buildWhere exampleRegistry ''Patient'' ''Patient'' identifierParam
           \<lparr>f_code = ''identifier'', f_operator = NOT_EQUALS, f_value = ''a,b,c''\<rparr> = Inr e \<and>
         \<not> selects noDatabaseOperators (tokenDatabase ''b'') ''Patient'' e ''r1'')"
proof -
  have inner: "buildWhereExpression
     \<lparr>fc_searchParam = identifierParam, fc_lookupTableName = ''Patient_Token'',
      fc_caseSensitive = True,
      fc_filter = \<lparr>f_code = ''identifier'', f_operator = MISSING, f_value = ''a,b,c''\<rparr>\<rparr> = None"
    by (simp add: buildWhereExpression_def buildWhereCondition_def splitSearchOnComma_def
        numeral_2_eq_2 Let_def)
  have lower: "toLowerCase ''a,b,c'' = ''a,b,c''"
    by (simp add: toLowerCase_def toLowerCaseChar_def)
  have err: "buildWhere exampleRegistry ''Patient'' ''Patient'' identifierParam
     \<lparr>f_code = ''identifier'', f_operator = MISSING, f_value = ''a,b,c''\<rparr> =
     Inl (BadRequest missingValueMessage)"
    by (simp add: buildWhere_def shouldTokenRowExist_def lower Let_def)
  have neg: "\<exists>e. buildWhere exampleRegistry ''Patient'' ''Patient'' identifierParam
           \<lparr>f_code = ''identifier'', f_operator = NOT_EQUALS, f_value = ''a,b,c''\<rparr> = Inr e \<and>
         \<not> selects noDatabaseOperators (tokenDatabase ''b'') ''Patient'' e ''r1''"
    by (simp add: compile_defs identifierParam_case_sensitive trim_def isWhiteSpace_def
        eval_defs tokenDatabase_b)
  from inner err neg show ?thesis by blast
qed

subsection \<open>The value condition\<close>

text \<open>
  C8, as the code has it. The option is trimmed first. For an operator other than TEXT and
  CONTAINS the value condition is \<open>value = trim(option)\<close> when the parameter is
  case-sensitive, and \<open>value IN (trim(option), lower(trim(option)))\<close>, a set of two
  elements, when it is not; this is the condition of an option without a bar under every
  operator that compares the token value.
\<close>

theorem C8_value_condition:
  "(f_operator (fc_filter context) \<noteq> TEXT \<and> f_operator (fc_filter context) \<noteq> CONTAINS \<longrightarrow>
      buildValueCondition context option =
        (if fc_caseSensitive context
         then Condition (Column (fc_lookupTableName context) ''value'') ''=''
                (StringParam (trim option)) None
         else Condition (Column (fc_lookupTableName context) ''value'') ''IN''
                (ArrayParam [trim option, toLocaleLowerCase (trim option)]) None)) \<and>
   (shouldCompareTokenValue (f_operator (fc_filter context)) \<and>
    f_operator (fc_filter context) \<noteq> TEXT \<and> f_operator (fc_filter context) \<noteq> CONTAINS \<and>
    CHR ''|'' \<notin> set option \<longrightarrow>
      buildWhereCondition context option =
        Some (if fc_caseSensitive context
              then Condition (Column (fc_lookupTableName context) ''value'') ''=''
                     (StringParam (trim option)) None
              else Condition (Column (fc_lookupTableName context) ''value'') ''IN''
                     (ArrayParam [trim option, toLocaleLowerCase (trim option)]) None))"
proof -
  have vc: "buildValueCondition context option =
        (if fc_caseSensitive context
         then Condition (Column (fc_lookupTableName context) ''value'') ''=''
                (StringParam (trim option)) None
         else Condition (Column (fc_lookupTableName context) ''value'') ''IN''
                (ArrayParam [trim option, toLocaleLowerCase (trim option)]) None)"
    if "f_operator (fc_filter context) \<noteq> TEXT \<and> f_operator (fc_filter context) \<noteq> CONTAINS"
    using that by (simp add: buildValueCondition_def Let_def)
  have wc: "buildWhereCondition context option = Some (buildValueCondition context option)"
    if "shouldCompareTokenValue (f_operator (fc_filter context))" "CHR ''|'' \<notin> set option"
    using that by (auto simp: buildWhereCondition_plain)
  from vc wc show ?thesis by simp
qed

theorem C8_value_condition_witness:
  "buildWhereCondition
     \<lparr>fc_searchParam = identifierParam, fc_lookupTableName = ''Patient_Token'',
      fc_caseSensitive = True,
      fc_filter = \<lparr>f_code = ''identifier'', f_operator = EQUALS, f_value = ''ABC''\<rparr>\<rparr> ''ABC'' =
     Some (Condition (Column ''Patient_Token'' ''value'') ''='' (StringParam ''ABC'') None) \<and>
   buildWhereCondition
     \<lparr>fc_searchParam = identifierParam, fc_lookupTableName = ''Patient_Token'',
      fc_caseSensitive = False,
      fc_filter = \<lparr>f_code = ''identifier'', f_operator = EQUALS, f_value = '' ABC''\<rparr>\<rparr> '' ABC'' =
     Some (Condition (Column ''Patient_Token'' ''value'') ''IN''
             (ArrayParam [''ABC'', ''abc'']) None)"
  using
    C8_value_condition [of "\<lparr>fc_searchParam = identifierParam, fc_lookupTableName = ''Patient_Token'',
      fc_caseSensitive = True,
      fc_filter = \<lparr>f_code = ''identifier'', f_operator = EQUALS, f_value = ''ABC''\<rparr>\<rparr>" "''ABC''"]
    C8_value_condition [of "\<lparr>fc_searchParam = identifierParam, fc_lookupTableName = ''Patient_Token'',
      fc_caseSensitive = False,
      fc_filter = \<lparr>f_code = ''identifier'', f_operator = EQUALS, f_value = '' ABC''\<rparr>\<rparr>" "'' ABC''"]
  by (simp add: trim_def isWhiteSpace_def toLocaleLowerCase_def toLowerCaseChar_def)

text \<open>
  C8 as the spec states it does not hold for an option with white space around it: the
  condition compiled for the option \<open>ABC\<close> after a space compares with \<open>ABC\<close>.
\<close>

theorem C8_counterexample:
  "buildValueCondition
     \<lparr>fc_searchParam = identifierParam, fc_lookupTableName = ''Patient_Token'',
      fc_caseSensitive = True,
      fc_filter = \<lparr>f_code = ''identifier'', f_operator = EQUALS, f_value = '' ABC''\<rparr>\<rparr> '' ABC'' =
     Condition (Column ''Patient_Token'' ''value'') ''='' (StringParam ''ABC'') None \<and>
   buildValueCondition
     \<lparr>fc_searchParam = identifierParam, fc_lookupTableName = ''Patient_Token'',
      fc_caseSensitive = True,
      fc_filter = \<lparr>f_code = ''identifier'', f_operator = EQUALS, f_value = '' ABC''\<rparr>\<rparr> '' ABC'' \<noteq>
     Condition (Column ''Patient_Token'' ''value'') ''='' (StringParam '' ABC'') None \<and>
   buildValueCondition
     \<lparr>fc_searchParam = identifierParam, fc_lookupTableName = ''Patient_Token'',
      fc_caseSensitive = False,
      fc_filter = \<lparr>f_code = ''identifier'', f_operator = EQUALS, f_value = '' ABC''\<rparr>\<rparr> '' ABC'' \<noteq>
     Condition (Column ''Patient_Token'' ''value'') ''IN''
       (ArrayParam ['' ABC'', '' abc'']) None"
  by (simp add: buildValueCondition_def Let_def trim_def isWhiteSpace_def toLocaleLowerCase_def toLowerCaseChar_def)

subsection \<open>Create and update\<close>

lemma tokenRow_resourceId: "row_resourceId (tokenRow i token) = i"
  by (simp add: tokenRow_def)

text \<open>
  C9: an update (\<open>create\<close> false) first deletes the rows of the resource's id in the token
  table of its type and then inserts the rows of the freshly extracted tokens, so that
  afterwards the rows of that id are exactly the fresh ones and the rows of every other id
  are as before; a create deletes nothing and appends the fresh rows.
\<close>

theorem C9_update_replaces:
  "indexResource R db resource False (getTableName (res_resourceType resource)) =
     filter (\<lambda>row. row_resourceId row \<noteq> res_id resource)
       (db (getTableName (res_resourceType resource))) @
     map (tokenRow (res_id resource)) (getTokens R resource) \<and>
   filter (\<lambda>row. row_resourceId row = res_id resource)
     (indexResource R db resource False (getTableName (res_resourceType resource))) =
     map (tokenRow (res_id resource)) (getTokens R resource) \<and>
   filter (\<lambda>row. row_resourceId row \<noteq> res_id resource)
     (indexResource R db resource False (getTableName (res_resourceType resource))) =
     filter (\<lambda>row. row_resourceId row \<noteq> res_id resource)
       (db (getTableName (res_resourceType resource))) \<and>
   indexResource R db resource True (getTableName (res_resourceType resource)) =
     db (getTableName (res_resourceType resource)) @
     map (tokenRow (res_id resource)) (getTokens R resource)"
proof -
  have same: "filter (\<lambda>row. row_resourceId row = i) (map (tokenRow i) tokens) = map (tokenRow i) tokens"
    and other: "filter (\<lambda>row. row_resourceId row \<noteq> i) (map (tokenRow i) tokens) = []"
    for i tokens
    by (induction tokens) (simp_all add: tokenRow_resourceId)
  have upd: "indexResource R db resource False (getTableName (res_resourceType resource)) =
     filter (\<lambda>row. row_resourceId row \<noteq> res_id resource)
       (db (getTableName (res_resourceType resource))) @
     map (tokenRow (res_id resource)) (getTokens R resource)"
    by (simp add: indexResource_def insertValuesForResource_def deleteValuesForResource_def)
  have cre: "indexResource R db resource True (getTableName (res_resourceType resource)) =
     db (getTableName (res_resourceType resource)) @
     map (tokenRow (res_id resource)) (getTokens R resource)"
    by (simp add: indexResource_def insertValuesForResource_def)
  show ?thesis
    unfolding upd cre by (simp add: same other)
qed

theorem C9_update_replaces_witness:
  "indexResource exampleRegistry roundTripDatabase
     (patientWith ''r1'' [\<lparr>id_system = Some ''http://example.org'', id_value = Some ''999''\<rparr>]) False
     ''Patient_Token'' =
     [\<lparr>row_resourceId = ''r2'', row_code = ''identifier'',
       row_system = Some ''http://example.org'', row_value = Some ''124''\<rparr>,
      \<lparr>row_resourceId = ''r1'', row_code = ''identifier'',
       row_system = Some ''http://example.org'', row_value = Some ''999''\<rparr>] \<and>
   indexResource exampleRegistry roundTripDatabase
     (patientWith ''r1'' [\<lparr>id_system = Some ''http://example.org'', id_value = Some ''999''\<rparr>]) True
     ''Patient_Token'' =
     [\<lparr>row_resourceId = ''r1'', row_code = ''identifier'',
       row_system = Some ''http://example.org'', row_value = Some ''123''\<rparr>,
      \<lparr>row_resourceId = ''r2'', row_code = ''identifier'',
       row_system = Some ''http://example.org'', row_value = Some ''124''\<rparr>,
      \<lparr>row_resourceId = ''r1'', row_code = ''identifier'',
       row_system = Some ''http://example.org'', row_value = Some ''999''\<rparr>]"
proof -
  let ?r = "patientWith ''r1'' [\<lparr>id_system = Some ''http://example.org'', id_value = Some ''999''\<rparr>]"
  have tn: "getTableName (res_resourceType ?r) = ''Patient_Token''"
    by (simp add: patientWith_def getTableName_def)
  have id: "res_id ?r = ''r1''"
    by (simp add: patientWith_def)
  have tokens: "getTokens exampleRegistry ?r =
      [\<lparr>tk_code = ''identifier'', tk_system = Some ''http://example.org'', tk_value = Some ''999''\<rparr>]"
    by (simp add: example_defs extract_defs)
  have row: "tokenRow ''r1''
       \<lparr>tk_code = ''identifier'', tk_system = Some ''http://example.org'', tk_value = Some ''999''\<rparr> =
      \<lparr>row_resourceId = ''r1'', row_code = ''identifier'',
       row_system = Some ''http://example.org'', row_value = Some ''999''\<rparr>"
    by (simp add: tokenRow_def trimOrUndefined_def trim_def isWhiteSpace_def)
  show ?thesis
    using C9_update_replaces [of exampleRegistry roundTripDatabase ?r]
    unfolding tn id tokens
    by (simp add: roundTripDatabase_rows row)
qed

subsection \<open>Derived identifier parameters\<close>

text \<open>
  C10: a token parameter whose code ends with \<open>:identifier\<close> is classified case-sensitive
  whatever the registry says about its element types, also when it says nothing. So
  \<open>buildSimpleToken\<close> queues its values as they are, without lower-casing, as for every
  Identifier value of the parameter, and an option without a bar compiles, under an
  operator that compares the token value other than TEXT and CONTAINS, to the single
  equality \<open>value = trim(option)\<close>.
\<close>

theorem C10_identifier_suffix:
  assumes "sp_type searchParam = ''token''"
    and "endsWith (sp_code searchParam) '':identifier''"
  shows
    "getTokenIndexType R searchParam resourceType = Some CASE_SENSITIVE \<and>
     isCaseSensitiveSearchParameter R searchParam resourceType \<and>
     isIndexed R searchParam resourceType \<and>
     buildSimpleToken result searchParam
         (isCaseSensitiveSearchParameter R searchParam resourceType) system val =
       (if (truthy system \<or> truthy val) \<and>
           \<not> list_ex (\<lambda>token. tk_code token = sp_code searchParam \<and>
                              tk_system token = system \<and> tk_value token = val) result
        then result @ [\<lparr>tk_code = sp_code searchParam, tk_system = system, tk_value = val\<rparr>]
        else result) \<and>
     buildTokens R result searchParam resource (IdentifierValue identifier) =
       (if (truthy (id_system identifier) \<or> truthy (id_value identifier)) \<and>
           \<not> list_ex (\<lambda>token. tk_code token = sp_code searchParam \<and>
                              tk_system token = id_system identifier \<and>
                              tk_value token = id_value identifier) result
        then result @ [\<lparr>tk_code = sp_code searchParam, tk_system = id_system identifier,
                         tk_value = id_value identifier\<rparr>]
        else result) \<and>
     (shouldCompareTokenValue (f_operator flt) \<and> f_operator flt \<noteq> TEXT \<and>
      f_operator flt \<noteq> CONTAINS \<and> CHR ''|'' \<notin> set option \<longrightarrow>
        buildWhereCondition
          \<lparr>fc_searchParam = searchParam, fc_lookupTableName = getTableName resourceType,
           fc_caseSensitive = isCaseSensitiveSearchParameter R searchParam resourceType,
           fc_filter = flt\<rparr> option =
        Some (Condition (Column (getTableName resourceType) ''value'') ''=''
                (StringParam (trim option)) None))"
proof -
  from assms have ty: "getTokenIndexType R searchParam resourceType = Some CASE_SENSITIVE"
    by (simp add: getTokenIndexType_def)
  then have cs: "isCaseSensitiveSearchParameter R searchParam resourceType"
    by (simp add: isCaseSensitiveSearchParameter_def)
  from ty have ix: "isIndexed R searchParam resourceType"
    by (simp add: isIndexed_def)
  have simple: "buildSimpleToken result searchParam True system val =
       (if (truthy system \<or> truthy val) \<and>
           \<not> list_ex (\<lambda>token. tk_code token = sp_code searchParam \<and>
                              tk_system token = system \<and> tk_value token = val) result
        then result @ [\<lparr>tk_code = sp_code searchParam, tk_system = system, tk_value = val\<rparr>]
        else result)" for system val
    by (simp add: buildSimpleToken_def)
  have tokens: "buildTokens R result searchParam resource (IdentifierValue identifier) =
      buildSimpleToken result searchParam True (id_system identifier) (id_value identifier)"
    using assms
    by (simp add: buildTokens_def buildIdentifierToken_def isCaseSensitiveSearchParameter_def
        getTokenIndexType_def)
  have cond: "buildWhereCondition
          \<lparr>fc_searchParam = searchParam, fc_lookupTableName = getTableName resourceType,
           fc_caseSensitive = True, fc_filter = flt\<rparr> option =
        Some (Condition (Column (getTableName resourceType) ''value'') ''=''
                (StringParam (trim option)) None)"
    if "shouldCompareTokenValue (f_operator flt) \<and> f_operator flt \<noteq> TEXT \<and>
      f_operator flt \<noteq> CONTAINS \<and> CHR ''|'' \<notin> set option"
    using that by (auto simp: buildWhereCondition_plain buildValueCondition_def Let_def)
  from cs have cs_eq: "isCaseSensitiveSearchParameter R searchParam resourceType = True"
    by simp
  show ?thesis
    unfolding tokens cs_eq using ty ix simple cond by simp
qed

theorem C10_identifier_suffix_witness:
  "getTokenIndexType emptyRegistry subjectIdentifierParam ''Observation'' = Some CASE_SENSITIVE \<and>
   elementDefinitionTypes emptyRegistry ''Observation'' subjectIdentifierParam = [] \<and>
   buildTokens emptyRegistry [] subjectIdentifierParam
       \<lparr>res_resourceType = ''Observation'', res_id = ''o1'', res_paths = (\<lambda>e. [])\<rparr>
       (IdentifierValue \<lparr>id_system = Some ''http://example.org'', id_value = Some ''ABC''\<rparr>) =
     [\<lparr>tk_code = ''subject:identifier'', tk_system = Some ''http://example.org'',
       tk_value = Some ''ABC''\<rparr>] \<and>
   buildWhereCondition
       \<lparr>fc_searchParam = subjectIdentifierParam, fc_lookupTableName = ''Observation_Token'',
        fc_caseSensitive = isCaseSensitiveSearchParameter emptyRegistry subjectIdentifierParam ''Observation'',
        fc_filter = \<lparr>f_code = ''subject:identifier'', f_operator = EQUALS, f_value = ''ABC''\<rparr>\<rparr>
       ''ABC'' =
     Some (Condition (Column ''Observation_Token'' ''value'') ''='' (StringParam ''ABC'') None)"
proof -
  have ty: "sp_type subjectIdentifierParam = ''token''"
    by (simp add: subjectIdentifierParam_def)
  have suffix: "endsWith (sp_code subjectIdentifierParam) '':identifier''"
    by (simp add: subjectIdentifierParam_def endsWith_def)
  have code: "sp_code subjectIdentifierParam = ''subject:identifier''"
    by (simp add: subjectIdentifierParam_def)
  have ed: "elementDefinitionTypes emptyRegistry ''Observation'' subjectIdentifierParam = []"
    by (simp add: emptyRegistry_def)
  show ?thesis
    using C10_identifier_suffix [OF ty suffix, of emptyRegistry "''Observation''" "[]"
        None None
        "\<lparr>res_resourceType = ''Observation'', res_id = ''o1'', res_paths = (\<lambda>e. [])\<rparr>"
        "\<lparr>id_system = Some ''http://example.org'', id_value = Some ''ABC''\<rparr>"
        "\<lparr>f_code = ''subject:identifier'', f_operator = EQUALS, f_value = ''ABC''\<rparr>" "''ABC''"]
    by (auto simp: code ed getTableName_def trim_def isWhiteSpace_def)
qed

end
